theory Spec2Isabelle
  imports Complex_Main
begin

section \<open>Strings as the code inspects them\<close>

text \<open>
  JavaScript strings are modelled as \<^typ>\<open>string\<close>.  \<open>startsWith\<close> and
  \<open>str_includes\<close> are \<^verbatim>\<open>String.prototype.startsWith\<close> and
  \<^verbatim>\<open>String.prototype.includes\<close>: a case-sensitive search for a contiguous
  occurrence.
\<close>

fun startsWith :: "string \<Rightarrow> string \<Rightarrow> bool" where
  "startsWith s [] = True"
| "startsWith [] (c # cs) = False"
| "startsWith (x # xs) (c # cs) = (x = c \<and> startsWith xs cs)"

fun str_includes :: "string \<Rightarrow> string \<Rightarrow> bool" where
  "str_includes [] t = (t = [])"
| "str_includes (x # xs) t = (startsWith (x # xs) t \<or> str_includes xs t)"

section \<open>Values exchanged with the worker\<close>

text \<open>
  The worker's payload is whatever \<^verbatim>\<open>JSON.parse\<close> returns: the code types it
  \<^verbatim>\<open>any\<close>.  A number is the rational it is equal to; the infinities are not
  represented.  An object is the list of its own properties, read with \<open>map_of\<close>.
\<close>

datatype json =
    JNull
  | JBool bool
  | JNum rat
  | JStr string
  | JArr "json list"
  | JObj "(string \<times> json) list"

text \<open>A JavaScript number as the code computes with it: \<open>NaN\<close> or a finite value.\<close>

datatype jsnum = NaN | Fin rat

text \<open>
  \<open>get_prop v k\<close> is the property read \<^verbatim>\<open>v.k\<close> on a value that is not
  \<^verbatim>\<open>null\<close>: \<open>None\<close> stands for \<^verbatim>\<open>undefined\<close>.  None of the keys the
  code reads is a property of the prototypes of strings, numbers, booleans or arrays, so
  only an object can answer.  \<open>nullish_or a b\<close> is \<^verbatim>\<open>a ?? b\<close>.
\<close>

definition get_prop :: "json \<Rightarrow> string \<Rightarrow> json option" where
  "get_prop v k = (case v of JObj kvs \<Rightarrow> map_of kvs k | _ \<Rightarrow> None)"

definition nullish_or :: "json option \<Rightarrow> json \<Rightarrow> json" where
  "nullish_or a b = (case a of None \<Rightarrow> b | Some JNull \<Rightarrow> b | Some v \<Rightarrow> v)"

text \<open>Truthiness, as \<^verbatim>\<open>!v\<close> and \<^verbatim>\<open>if (v)\<close> read it.\<close>

fun truthy :: "json \<Rightarrow> bool" where
  "truthy JNull = False"
| "truthy (JBool b) = b"
| "truthy (JNum q) = (q \<noteq> 0)"
| "truthy (JStr s) = (s \<noteq> [])"
| "truthy (JArr xs) = True"
| "truthy (JObj kvs) = True"

fun truthy_num :: "jsnum \<Rightarrow> bool" where
  "truthy_num NaN = False"
| "truthy_num (Fin q) = (q \<noteq> 0)"

section \<open>The external producer adapter (lib/scraper)\<close>

text \<open>
  What one spawned worker process does, as the adapter observes it: it closes with an
  exit code (\<open>None\<close> when a signal ended it), its standard output and its standard
  error; or it is still running when the 60 s timer fires; or it cannot be started.
\<close>

datatype proc_result =
    Closed "int option" string string
  | TimedOut
  | SpawnFailed string

text \<open>
  The \<^verbatim>\<open>Error\<close> a promise is rejected with.  \<open>RATE_LIMITED\<close> is
  \<^verbatim>\<open>new Error('RATE_LIMITED')\<close>; \<open>ProcessFailed\<close> carries the exit code and both
  streams of the message "Python script failed with code ..."; \<open>JsTypeError\<close> is a
  \<^verbatim>\<open>TypeError\<close> raised by the language itself, with its message.
\<close>

datatype failure =
    RATE_LIMITED
  | ProcessFailed "int option" string string
  | ParseFailed string
  | ProcessTimeout
  | StartFailed string
  | AllRetriesFailed string
  | JsTypeError string

text \<open>The effects of the adapter on the outside world, in the order they happen.\<close>

datatype event = Spawn string string nat | Sleep int

text \<open>
  The environment of a request: the built-in functions of the platform whose exact
  behaviour the model leaves open, the behaviour of the worker processes, and the clock.
  \<^item> \<open>url_hostname u\<close>: the \<^verbatim>\<open>hostname\<close> of \<^verbatim>\<open>new URL(u)\<close>, \<open>None\<close> when the
    constructor throws;
  \<^item> \<open>JSON_parse\<close>: \<^verbatim>\<open>JSON.parse\<close>, \<open>None\<close> when it throws;
  \<^item> \<open>worker script arg n\<close>: what the process spawned for attempt \<open>n\<close> of
    \<open>script\<close> on \<open>arg\<close> does;
  \<^item> \<open>parseFloat\<close>, \<open>parseInt\<close>: the global functions of these names, on strings;
  \<^item> \<open>num_str\<close>: \<^verbatim>\<open>String(n)\<close> for a finite number \<open>n\<close>; \<open>str_num\<close>: the
    number a string denotes, as \<^verbatim>\<open>Number\<close> reads it (\<open>NaN\<close> when it denotes none);
  \<^item> \<open>to_double\<close>: the double an arithmetic operation returns, given its exact result;
  \<^item> \<open>TTL\<close>: the time-to-live the cache is configured with (milliseconds);
  \<^item> \<open>t_get\<close>, \<open>t_reply\<close>, \<open>t_set\<close>: the clock (milliseconds) when the cache is
    consulted, when the reply's timestamp is taken, and when the cache stamps an entry.
\<close>

record env =
  url_hostname :: "string \<Rightarrow> string option"
  JSON_parse :: "string \<Rightarrow> json option"
  worker :: "string \<Rightarrow> string \<Rightarrow> nat \<Rightarrow> proc_result"
  parseFloat :: "string \<Rightarrow> jsnum"
  parseInt :: "string \<Rightarrow> jsnum"
  num_str :: "rat \<Rightarrow> string"
  str_num :: "string \<Rightarrow> jsnum"
  to_double :: "rat \<Rightarrow> rat"
  TTL :: int
  t_get :: int
  t_reply :: int
  t_set :: int

definition MAX_RETRIES :: nat where
  "MAX_RETRIES = 2"

definition RETRY_DELAY :: int where
  "RETRY_DELAY = 1000"

definition getRetryDelay :: "nat \<Rightarrow> int" where
  "getRetryDelay attempt = RETRY_DELAY * 2 ^ attempt"

text \<open>The test of lines 120-121 on the diagnostic stream.\<close>

definition rate_limit_indicator :: "string \<Rightarrow> bool" where
  "rate_limit_indicator errorData =
     (str_includes errorData ''429'' \<or> str_includes errorData ''rate limit'' \<or>
      str_includes errorData ''too many requests'' \<or> str_includes errorData ''blocked'')"

text \<open>
  One attempt: the promise of lines 85-144.  On exit code 0 the output is parsed; a
  parsed \<^verbatim>\<open>null\<close> makes \<^verbatim>\<open>parsed.data\<close> throw inside the same
  \<^verbatim>\<open>try\<close>, so it is reported as a parse failure too; otherwise the promise
  resolves to \<^verbatim>\<open>parsed.data ?? parsed ?? {}\<close>.
\<close>

definition attempt_outcome :: "env \<Rightarrow> proc_result \<Rightarrow> failure + json" where
  "attempt_outcome E r =
     (case r of
        TimedOut \<Rightarrow> Inl ProcessTimeout
      | SpawnFailed m \<Rightarrow> Inl (StartFailed m)
      | Closed code out err \<Rightarrow>
          if code \<noteq> Some 0 then
            (if rate_limit_indicator err then Inl RATE_LIMITED
             else Inl (ProcessFailed code out err))
          else
            (case JSON_parse E out of
               None \<Rightarrow> Inl (ParseFailed out)
             | Some JNull \<Rightarrow> Inl (ParseFailed out)
             | Some parsed \<Rightarrow> Inr (nullish_or (get_prop parsed ''data'') parsed)))"

text \<open>
  The loop of lines 83-167, entered at attempt number \<open>attempt\<close> with the error of
  the attempt before in \<open>lastError\<close>.  A failed attempt that is not the last one
  sleeps \<open>getRetryDelay attempt\<close> (both branches of lines 155-165 do) and goes on;
  the last one leaves the loop, and line 170 throws \<open>lastError\<close>, which is the error
  just caught.  \<open>maxRetries\<close> is a natural number: the only callers pass the default.
\<close>

function retry_from ::
  "env \<Rightarrow> string \<Rightarrow> string \<Rightarrow> nat \<Rightarrow> nat \<Rightarrow> failure option \<Rightarrow> (failure + json) \<times> event list" where
  "retry_from E scriptPath arg maxRetries attempt lastError =
     (if attempt \<le> maxRetries then
        (case attempt_outcome E (worker E scriptPath arg attempt) of
           Inr payload \<Rightarrow> (Inr payload, [Spawn scriptPath arg attempt])
         | Inl error \<Rightarrow>
             if attempt = maxRetries then (Inl error, [Spawn scriptPath arg attempt])
             else
               (let (res, evs) = retry_from E scriptPath arg maxRetries (Suc attempt) (Some error)
                in (res, Spawn scriptPath arg attempt # Sleep (getRetryDelay attempt) # evs)))
      else
        (Inl (case lastError of Some e \<Rightarrow> e | None \<Rightarrow> AllRetriesFailed scriptPath), []))"
  by pat_completeness auto
termination
  by (relation "measure (\<lambda>(E, s, a, m, k, l). Suc m - k)") auto

definition runPythonScript :: "env \<Rightarrow> string \<Rightarrow> string \<Rightarrow> nat \<Rightarrow> (failure + json) \<times> event list" where
  "runPythonScript E scriptPath arg maxRetries = retry_from E scriptPath arg maxRetries 0 None"

text \<open>
  The trace of an invocation whose last attempt is number \<open>j\<close>: every attempt before
  it is followed by its back-off sleep.
\<close>

definition backoff_trace :: "string \<Rightarrow> string \<Rightarrow> nat \<Rightarrow> nat \<Rightarrow> event list" where
  "backoff_trace scriptPath arg k j =
     concat (map (\<lambda>i. [Spawn scriptPath arg i, Sleep (RETRY_DELAY * 2 ^ i)]) [k..<j])
     @ [Spawn scriptPath arg j]"

fun is_Spawn :: "event \<Rightarrow> bool" where
  "is_Spawn (Spawn s a n) = True"
| "is_Spawn (Sleep d) = False"

definition attempts_made :: "event list \<Rightarrow> nat" where
  "attempts_made evs = length (filter is_Spawn evs)"

section \<open>The two fetches (lib/scraper)\<close>

text \<open>
  \<^verbatim>\<open>ProductData\<close>, with the values its fields hold at run time: the fields the
  interface declares as strings are copied from the payload unchecked, so they are
  \<^typ>\<open>json\<close> here; \<open>rating\<close> and \<open>reviewCount\<close> went through
  \<^verbatim>\<open>Number\<close>; \<open>features\<close> and \<open>images\<close> went through \<^verbatim>\<open>Array.isArray\<close>.
\<close>

record ProductData =
  asin :: json
  title :: json
  price :: json
  original_price :: json
  discount_percentage :: json
  rating :: jsnum
  reviewCount :: jsnum
  availability :: json
  features :: "json list"
  description :: json
  images :: "json list"

text \<open>
  The conversion of a value to a string, as \<^verbatim>\<open>String(v)\<close>, a template literal
  and the argument of \<^verbatim>\<open>parseInt\<close> perform it; \<open>Inl message\<close> is a
  \<^verbatim>\<open>TypeError\<close>.  An array is joined with commas, \<^verbatim>\<open>null\<close> elements
  giving the empty string.  An object from \<^verbatim>\<open>JSON.parse\<close> holds no function: when
  it has a property \<^verbatim>\<open>toString\<close> of its own, that property hides the inherited
  method and the conversion finds nothing to call; otherwise the inherited method answers.
\<close>

fun String_js :: "env \<Rightarrow> json \<Rightarrow> string + string"
  and join_elements :: "env \<Rightarrow> json list \<Rightarrow> string + string" where
  "String_js E JNull = Inr ''null''"
| "String_js E (JBool b) = Inr (if b then ''true'' else ''false'')"
| "String_js E (JNum q) = Inr (num_str E q)"
| "String_js E (JStr s) = Inr s"
| "String_js E (JArr xs) = join_elements E xs"
| "String_js E (JObj kvs) =
     (if map_of kvs ''toString'' \<noteq> None then Inl ''Cannot convert object to primitive value''
      else Inr ''[object Object]'')"
| "join_elements E [] = Inr []"
| "join_elements E (x # xs) =
     (case (if x = JNull then Inr [] else String_js E x) of
        Inl e \<Rightarrow> Inl e
      | Inr s \<Rightarrow>
          if xs = [] then Inr s
          else (case join_elements E xs of Inl e \<Rightarrow> Inl e | Inr t \<Rightarrow> Inr (s @ '','' @ t)))"

text \<open>
  \<^verbatim>\<open>Number(v)\<close>.  An array or an object is converted to a string first (its
  inherited \<^verbatim>\<open>valueOf\<close> returns the object itself, and one of its own is no
  function), so the conversion throws where \<open>String_js\<close> does.
\<close>

definition Number_js :: "env \<Rightarrow> json \<Rightarrow> string + jsnum" where
  "Number_js E v =
     (case v of
        JNull \<Rightarrow> Inr (Fin 0)
      | JBool b \<Rightarrow> Inr (Fin (if b then 1 else 0))
      | JNum q \<Rightarrow> Inr (Fin q)
      | JStr s \<Rightarrow> Inr (str_num E s)
      | _ \<Rightarrow> (case String_js E v of Inl e \<Rightarrow> Inl e | Inr s \<Rightarrow> Inr (str_num E s)))"

text \<open>\<^verbatim>\<open>Array.isArray(x) ? x : []\<close>\<close>

definition array_or_empty :: "json option \<Rightarrow> json list" where
  "array_or_empty x = (case x of Some (JArr xs) \<Rightarrow> xs | _ \<Rightarrow> [])"

text \<open>
  The object literal of lines 176-188.  The two calls of \<^verbatim>\<open>Number\<close> are the only
  expressions of it that can throw; the promise is then rejected with the error.
\<close>

definition buildProductData :: "env \<Rightarrow> json \<Rightarrow> failure + ProductData" where
  "buildProductData E data =
     (case Number_js E (nullish_or (get_prop data ''rating'') (JNum 0)) of
        Inl message \<Rightarrow> Inl (JsTypeError message)
      | Inr rating_number \<Rightarrow>
     (case Number_js E (nullish_or (get_prop data ''reviewCount'') (JNum 0)) of
        Inl message \<Rightarrow> Inl (JsTypeError message)
      | Inr reviewCount_number \<Rightarrow>
          Inr \<lparr> asin = nullish_or (get_prop data ''asin'') (JStr ''N/A''),
                title = nullish_or (get_prop data ''title'') (JStr ''N/A''),
                price = nullish_or (get_prop data ''price'') (JStr ''N/A''),
                original_price = nullish_or (get_prop data ''original_price'') JNull,
                discount_percentage = nullish_or (get_prop data ''discount_percentage'') JNull,
                rating = rating_number,
                reviewCount = reviewCount_number,
                availability = nullish_or (get_prop data ''availability'') (JStr ''N/A''),
                features = array_or_empty (get_prop data ''features''),
                description = nullish_or (get_prop data ''description'') (JStr ''N/A''),
                images = array_or_empty (get_prop data ''images'') \<rparr>))"



definition scrapeAmazonProduct :: "env \<Rightarrow> string \<Rightarrow> (failure + ProductData) \<times> event list" where
  "scrapeAmazonProduct E url =
     (case runPythonScript E ''scripts/product.py'' url MAX_RETRIES of
        (Inl e, evs) \<Rightarrow> (Inl e, evs)
      | (Inr data, evs) \<Rightarrow> (buildProductData E data, evs))"

record review =
  Description :: json
  Stars :: json

text \<open>
  A \<^verbatim>\<open>map\<close> whose callback may throw: the first exception ends it.
\<close>

fun map_result :: "('a \<Rightarrow> 'e + 'b) \<Rightarrow> 'a list \<Rightarrow> 'e + 'b list" where
  "map_result f [] = Inr []"
| "map_result f (x # xs) =
     (case f x of
        Inl e \<Rightarrow> Inl e
      | Inr y \<Rightarrow> (case map_result f xs of Inl e \<Rightarrow> Inl e | Inr ys \<Rightarrow> Inr (y # ys)))"

text \<open>
  The callback of lines 195-198.  Reading a property of \<^verbatim>\<open>null\<close> throws.
\<close>

definition review_of :: "json \<Rightarrow> failure + review" where
  "review_of r =
     (if r = JNull then Inl (JsTypeError ''Cannot read properties of null'')
      else Inr \<lparr> Description = nullish_or (get_prop r ''Description'') (JStr []),
                 Stars = nullish_or (get_prop r ''Stars'') (JStr ''0'') \<rparr>)"

definition analyzeReviews :: "env \<Rightarrow> string \<Rightarrow> (failure + review list) \<times> event list" where
  "analyzeReviews E url =
     (case runPythonScript E ''scripts/script2.py'' url MAX_RETRIES of
        (Inl e, evs) \<Rightarrow> (Inl e, evs)
      | (Inr data, evs) \<Rightarrow>
          (case data of JArr rs \<Rightarrow> (map_result review_of rs, evs) | _ \<Rightarrow> (Inr [], evs)))"

section \<open>The result cache (lib/cache)\<close>

text \<open>
  Modelled from the spec: the module \<^verbatim>\<open>@/lib/cache\<close> (\<^verbatim>\<open>productCache\<close>) is
  not among the source files.  Sections 3 and 4.3 of the specification: an entry is a
  value with the time it was stored; \<open>get\<close> returns the stored value only if an entry
  exists for the key and \<open>now - storedAt < TTL\<close>, otherwise absent; \<open>set\<close>
  unconditionally inserts or overwrites the entry, stamping the current time.
\<close>

record 'v CacheEntry =
  entry_value :: 'v
  storedAt :: int

type_synonym 'v cache = "string \<Rightarrow> 'v CacheEntry option"

definition productCache_get :: "int \<Rightarrow> int \<Rightarrow> 'v cache \<Rightarrow> string \<Rightarrow> 'v option" where
  "productCache_get ttl now c k =
     (case c k of
        None \<Rightarrow> None
      | Some e \<Rightarrow> if now - storedAt e < ttl then Some (entry_value e) else None)"

definition productCache_set :: "int \<Rightarrow> 'v cache \<Rightarrow> string \<Rightarrow> 'v \<Rightarrow> 'v cache" where
  "productCache_set now c k v = c(k \<mapsto> \<lparr> entry_value = v, storedAt = now \<rparr>)"


section \<open>The request handler (POST)\<close>

subsection \<open>Helpers for the expressions of the handler\<close>

text \<open>
  \<^verbatim>\<open>toLowerCase\<close> on the ASCII letters; other characters are left as they are.
\<close>

definition lower_char :: "char \<Rightarrow> char" where
  "lower_char c =
     (let n = (of_char c :: nat) in if 65 \<le> n \<and> n \<le> 90 then char_of (n + 32) else c)"

definition toLowerCase :: "string \<Rightarrow> string" where
  "toLowerCase s = map lower_char s"

text \<open>\<^verbatim>\<open>s.replace(/[^0-9.]/g, '')\<close>\<close>

definition keep_digits_dots :: "string \<Rightarrow> string" where
  "keep_digits_dots s = filter (\<lambda>c. c \<in> set ''0123456789.'') s"

text \<open>\<^verbatim>\<open>s || d\<close> on strings: the empty string is falsy.\<close>

definition or_else :: "string \<Rightarrow> string \<Rightarrow> string" where
  "or_else s d = (if s = [] then d else s)"

definition num_to_string :: "env \<Rightarrow> jsnum \<Rightarrow> string" where
  "num_to_string E n = (case n of NaN \<Rightarrow> ''NaN'' | Fin q \<Rightarrow> num_str E q)"

text \<open>
  The text of the discount where the code converts it to a string (lines 174, 203, 204,
  233 and 279), which it does only when the value is truthy.
\<close>

definition truthy_text :: "env \<Rightarrow> json \<Rightarrow> string + string" where
  "truthy_text E d = (if truthy d then String_js E d else Inr [])"

text \<open>Comparisons of a number with a constant: every comparison with \<open>NaN\<close> is false.\<close>

fun num_ge :: "jsnum \<Rightarrow> rat \<Rightarrow> bool" where
  "num_ge NaN r = False"
| "num_ge (Fin q) r = (q \<ge> r)"

fun num_gt :: "jsnum \<Rightarrow> rat \<Rightarrow> bool" where
  "num_gt NaN r = False"
| "num_gt (Fin q) r = (q > r)"

fun num_le :: "jsnum \<Rightarrow> rat \<Rightarrow> bool" where
  "num_le NaN r = False"
| "num_le (Fin q) r = (q \<le> r)"

fun num_lt :: "jsnum \<Rightarrow> rat \<Rightarrow> bool" where
  "num_lt NaN r = False"
| "num_lt (Fin q) r = (q < r)"

fun isNaN :: "jsnum \<Rightarrow> bool" where
  "isNaN NaN = True"
| "isNaN (Fin q) = False"

text \<open>
  \<^verbatim>\<open>Math.round\<close> of a double: to the nearest integer, a half upwards.  Every
  arithmetic operation on numbers below is written with the rounding \<open>to_double\<close> of
  its exact result; sums and differences of counts are exact.
\<close>

definition Math_round :: "rat \<Rightarrow> int" where
  "Math_round x = \<lfloor>x + 1 / 2\<rfloor>"

text \<open>
  The computations below return \<open>Inl message\<close> when the expression throws a
  \<^verbatim>\<open>TypeError\<close> with that message: a method of strings called on a value that
  is not a string.
\<close>

text \<open>
  \<open>parseIndianPrice\<close>, lines 82-90.  The first \<^verbatim>\<open>replace\<close> removes the currency
  signs, commas and white space; the rupee sign is not an ASCII character, and the second
  \<^verbatim>\<open>replace\<close> removes it with everything else that is neither a digit nor a dot.
\<close>

definition parseIndianPrice :: "env \<Rightarrow> json \<Rightarrow> string + jsnum" where
  "parseIndianPrice E priceString =
     (if \<not> truthy priceString \<or> priceString = JStr ''N/A'' then Inr (Fin 1000)
      else
        (case priceString of
           JStr s \<Rightarrow>
             (let cleanPrice = filter (\<lambda>c. c \<notin> set [CHR ''$'', CHR '','', CHR '' '', CHR 0x09,
                                                     CHR 0x0A, CHR 0x0B, CHR 0x0C, CHR 0x0D]) s;
                  numericPrice = parseFloat E (keep_digits_dots cleanPrice)
              in Inr (if \<not> isNaN numericPrice \<and> num_gt numericPrice 0 then numericPrice
                      else Fin 1000))
         | _ \<Rightarrow> Inl ''priceString.replace is not a function''))"

text \<open>
  \<^verbatim>\<open>parseFloat(x.Stars?.replace(/[^0-9.]/g, '') || dflt)\<close>, lines 105, 220 and 243;
  \<open>who\<close> is the name of the variable \<open>x\<close>, which the message shows.
\<close>

definition parseStars :: "env \<Rightarrow> string \<Rightarrow> string \<Rightarrow> json \<Rightarrow> string + jsnum" where
  "parseStars E who dflt stars =
     (case stars of
        JNull \<Rightarrow> Inr (parseFloat E dflt)
      | JStr s \<Rightarrow> Inr (parseFloat E (or_else (keep_digits_dots s) dflt))
      | _ \<Rightarrow> Inl (who @ ''.Stars?.replace is not a function''))"

record sentiment =
  positive :: int
  neutral :: int
  negative :: int

definition default_sentiment :: sentiment where
  "default_sentiment = \<lparr> positive = 60, neutral = 25, negative = 15 \<rparr>"

text \<open>
  \<open>scaled E x k\<close> is the product \<^verbatim>\<open>x * k\<close>, \<open>ratio E n len\<close> the quotient
  \<^verbatim>\<open>n / len\<close>, and \<open>percent E n len\<close> is
  \<^verbatim>\<open>Math.round((n / len) * 100)\<close>.
\<close>

definition scaled :: "env \<Rightarrow> rat \<Rightarrow> rat \<Rightarrow> rat" where
  "scaled E x k = to_double E (x * k)"

definition ratio :: "env \<Rightarrow> rat \<Rightarrow> nat \<Rightarrow> rat" where
  "ratio E n len = to_double E (n / of_nat len)"

definition percent :: "env \<Rightarrow> rat \<Rightarrow> nat \<Rightarrow> int" where
  "percent E n len = Math_round (scaled E (ratio E n len) 100)"

text \<open>Lines 96-146.\<close>

definition sentimentAnalysis :: "env \<Rightarrow> ProductData \<Rightarrow> review list \<Rightarrow> string + sentiment" where
  "sentimentAnalysis E productInfo reviews =
     (if reviews \<noteq> [] then
        (case map_result (\<lambda>review. parseStars E ''review'' ''3'' (Stars review)) reviews of
           Inl e \<Rightarrow> Inl e
         | Inr ratings \<Rightarrow>
             (if ratings \<noteq> [] then
                (let n_positive = length (filter (\<lambda>r. num_ge r 4) ratings);
                     n_negative = length (filter (\<lambda>r. num_le r 2) ratings);
                     n_neutral = int (length ratings) - int n_positive - int n_negative
                 in Inr \<lparr> positive = percent E (of_nat n_positive) (length ratings),
                          neutral = percent E (of_int n_neutral) (length ratings),
                          negative = percent E (of_nat n_negative) (length ratings) \<rparr>)
              else Inr default_sentiment))
      else if truthy_num (rating productInfo) then
        Inr (case parseFloat E (or_else (keep_digits_dots (num_to_string E (rating productInfo))) ''0'') of
               NaN \<Rightarrow> default_sentiment
             | Fin avgRating \<Rightarrow>
                 if avgRating \<ge> 4 then
                   \<lparr> positive = Math_round (to_double E (70 + scaled E (to_double E (avgRating - 4)) 15)),
                     neutral = Math_round (to_double E (20 - scaled E (to_double E (avgRating - 4)) 5)),
                     negative = Math_round (to_double E (10 - scaled E (to_double E (avgRating - 4)) 5)) \<rparr>
                 else if avgRating \<ge> 3 then
                   \<lparr> positive = Math_round (to_double E (40 + scaled E (to_double E (avgRating - 3)) 30)),
                     neutral = Math_round (to_double E (35 - scaled E (to_double E (avgRating - 3)) 5)),
                     negative = Math_round (to_double E (25 - scaled E (to_double E (avgRating - 3)) 10)) \<rparr>
                 else if avgRating > 0 then
                   \<lparr> positive = Math_round (to_double E (15 + scaled E avgRating 8)),
                     neutral = Math_round (to_double E (20 + scaled E avgRating 5)),
                     negative = Math_round (to_double E (65 - scaled E avgRating 13)) \<rparr>
                 else default_sentiment)
      else Inr default_sentiment)"

text \<open>Line 152: \<^verbatim>\<open>parseFloat(String(productInfo.rating || '0').replace(/[^0-9.]/g, '') || '0')\<close>\<close>

definition avgRating_of :: "env \<Rightarrow> ProductData \<Rightarrow> jsnum" where
  "avgRating_of E productInfo =
     parseFloat E
       (or_else
          (keep_digits_dots
             (if truthy_num (rating productInfo) then num_to_string E (rating productInfo)
              else ''0''))
          ''0'')"

text \<open>Lines 153-161.\<close>

definition ratingInsight :: "jsnum \<Rightarrow> string list" where
  "ratingInsight avgRating =
     (if num_ge avgRating (9 / 2) then
        [''Highly rated product with excellent customer satisfaction'']
      else if num_ge avgRating 4 then [''Well-received product with strong customer ratings'']
      else if num_ge avgRating 3 then [''Product has mixed reviews from customers'']
      else if num_gt avgRating 0 then [''Product has lower ratings, consider alternatives'']
      else [])"

text \<open>Lines 164-170.\<close>

definition availabilityInsight :: "json \<Rightarrow> string + string list" where
  "availabilityInsight a =
     (if truthy a \<and> a \<noteq> JStr ''N/A'' then
        (case a of
           JStr s \<Rightarrow>
             Inr (if str_includes (toLowerCase s) ''in stock'' then
                    [''Currently available for immediate purchase'']
                  else if str_includes (toLowerCase s) ''out of stock'' then
                    [''Currently out of stock - check back later'']
                  else [])
         | _ \<Rightarrow> Inl ''productInfo.availability.toLowerCase is not a function'')
      else Inr [])"

text \<open>Lines 173-180.\<close>

definition discountInsight :: "env \<Rightarrow> json \<Rightarrow> string + string list" where
  "discountInsight E d =
     (if truthy d then
        (case String_js E d of
           Inl e \<Rightarrow> Inl e
         | Inr text \<Rightarrow>
             (let discount = parseInt E text in
                Inr (if num_ge discount 30 then
                       [''Great deal with '' @ num_to_string E discount
                          @ ''% discount currently available'']
                     else if num_ge discount 15 then
                       [''Moderate discount of '' @ num_to_string E discount
                          @ ''% off regular price'']
                     else [])))
      else Inr [])"

text \<open>Lines 183-187.\<close>

definition reviewCountInsight :: "env \<Rightarrow> ProductData \<Rightarrow> review list \<Rightarrow> string list" where
  "reviewCountInsight E productInfo reviews =
     (if reviews \<noteq> [] then
        [''Analysis based on '' @ num_str E (of_nat (length reviews)) @ '' recent customer reviews'']
      else if truthy_num (reviewCount productInfo) \<and> num_gt (reviewCount productInfo) 0 then
        [''Product has '' @ num_to_string E (reviewCount productInfo) @ '' total customer reviews'']
      else [])"

text \<open>Lines 149-192.\<close>

definition keyInsights :: "env \<Rightarrow> ProductData \<Rightarrow> review list \<Rightarrow> string + string list" where
  "keyInsights E productInfo reviews =
     (case availabilityInsight (availability productInfo) of
        Inl e \<Rightarrow> Inl e
      | Inr av \<Rightarrow>
          (case discountInsight E (discount_percentage productInfo) of
             Inl e \<Rightarrow> Inl e
           | Inr di \<Rightarrow>
               (let insights = ratingInsight (avgRating_of E productInfo) @ av @ di
                      @ reviewCountInsight E productInfo reviews
                in Inr (if insights = [] then
                          [''Limited review data available for detailed analysis'']
                        else insights))))"

text \<open>
  \<^verbatim>\<open>productInfo.availability?.toLowerCase().includes(t)\<close>, lines 207 and 237.
\<close>

definition availability_includes :: "json \<Rightarrow> string \<Rightarrow> string + bool" where
  "availability_includes a t =
     (case a of
        JNull \<Rightarrow> Inr False
      | JStr s \<Rightarrow> Inr (str_includes (toLowerCase s) t)
      | _ \<Rightarrow> Inl ''productInfo.availability?.toLowerCase is not a function'')"

text \<open>
  The number of reviews that pass the filters of lines 219-222 (\<open>keep = num_ge\<close>,
  bound 4) and 242-245 (\<open>keep = num_le\<close>, bound 2).
\<close>

definition count_reviews ::
  "env \<Rightarrow> (jsnum \<Rightarrow> rat \<Rightarrow> bool) \<Rightarrow> rat \<Rightarrow> review list \<Rightarrow> string + nat" where
  "count_reviews E keep bound reviews =
     (case map_result (\<lambda>r. parseStars E ''r'' ''0'' (Stars r)) reviews of
        Inl e \<Rightarrow> Inl e
      | Inr stars \<Rightarrow> Inr (length (filter (\<lambda>s. keep s bound) stars)))"

text \<open>Lines 199-226: the pros before the defaults.\<close>

definition pros_found :: "env \<Rightarrow> ProductData \<Rightarrow> review list \<Rightarrow> string + string list" where
  "pros_found E productInfo reviews =
     (let d = discount_percentage productInfo;
          rc = reviewCount productInfo;
          p1 = (if num_ge (avgRating_of E productInfo) 4 then
                  [''High customer rating of '' @ num_to_string E (rating productInfo) @ ''/5.0'']
                else [])
      in case truthy_text E d of
           Inl e \<Rightarrow> Inl e
         | Inr text \<Rightarrow>
      (let p2 = (if truthy d \<and> num_ge (parseInt E text) 15 then
                   [''Currently '' @ text @ ''% off regular price'']
                 else [])
       in case availability_includes (availability productInfo) ''in stock'' of
           Inl e \<Rightarrow> Inl e
         | Inr inStock \<Rightarrow>
             (let p3 = (if inStock then [''Available for immediate purchase''] else []);
                  p4 = (if truthy_num rc \<and> num_gt rc 0 then
                          (if \<not> isNaN rc \<and> num_gt rc 100 then
                             [''Trusted by '' @ num_to_string E rc @ '' customers'']
                           else [])
                        else [])
              in if reviews \<noteq> [] then
                   (case count_reviews E num_ge 4 reviews of
                      Inl e \<Rightarrow> Inl e
                    | Inr n \<Rightarrow>
                        Inr (p1 @ p2 @ p3 @ p4 @
                             (if ratio E (of_nat n) (length reviews) \<ge> to_double E (7 / 10) then
                                [''Majority of recent reviews are positive'']
                              else [])))
                 else Inr (p1 @ p2 @ p3 @ p4))))"

text \<open>Lines 229-249: the cons before the default.\<close>

definition cons_found :: "env \<Rightarrow> ProductData \<Rightarrow> review list \<Rightarrow> string + string list" where
  "cons_found E productInfo reviews =
     (let d = discount_percentage productInfo;
          avgRating = avgRating_of E productInfo;
          c1 = (if num_lt avgRating 4 \<and> num_gt avgRating 0 then
                  [''Mixed or lower customer ratings'']
                else [])
      in case truthy_text E d of
           Inl e \<Rightarrow> Inl e
         | Inr text \<Rightarrow>
      (let c2 = (if \<not> truthy d \<or> num_lt (parseInt E text) 5 then
                   [''Limited or no discount currently available'']
                 else [])
       in case availability_includes (availability productInfo) ''out of stock'' of
           Inl e \<Rightarrow> Inl e
         | Inr outOfStock \<Rightarrow>
             (let c3 = (if outOfStock then [''Currently out of stock''] else [])
              in if reviews \<noteq> [] then
                   (case count_reviews E num_le 2 reviews of
                      Inl e \<Rightarrow> Inl e
                    | Inr n \<Rightarrow>
                        Inr (c1 @ c2 @ c3 @
                             (if ratio E (of_nat n) (length reviews) \<ge> to_double E (1 / 5) then
                                [''Some customers report issues or dissatisfaction'']
                              else [])))
                 else Inr (c1 @ c2 @ c3))))"

text \<open>Lines 252-261: the defaults for empty lists.\<close>

definition pros_with_default :: "ProductData \<Rightarrow> string list \<Rightarrow> string list" where
  "pros_with_default productInfo pros =
     (if pros = [] then
        ''Product available on Amazon marketplace''
          # (if features productInfo \<noteq> [] then [''Detailed product specifications available'']
             else [])
      else pros)"

definition cons_with_default :: "string list \<Rightarrow> string list" where
  "cons_with_default cons =
     (if cons = [] then [''Limited recent review data for comprehensive analysis''] else cons)"

subsection \<open>The reply\<close>

text \<open>
  The result object of lines 272-301.  \<open>r_cached\<close> is false where the object has no
  \<^verbatim>\<open>cached\<close> property.  The price comparison, the price history and the processing
  time are left out: they are computed from \<^verbatim>\<open>Math.random\<close> and from differences
  of clock readings.
\<close>

record AnalysisResult =
  r_title :: json
  r_productUrl :: string
  r_asin :: json
  r_price_current :: json
  r_price_original :: json
  r_price_discount :: json
  r_rating_average :: jsnum
  r_rating_count :: jsnum
  r_availability :: json
  r_images :: "json list"
  r_features :: "json list"
  r_description :: json
  r_reviews :: "review list"
  r_sentiment :: sentiment
  r_keyInsights :: "string list"
  r_pros :: "string list"
  r_cons :: "string list"
  r_reviewCount :: nat
  r_cached :: bool
  r_lastUpdated :: int

datatype body = ErrorBody string "string option" | ResultBody AnalysisResult

datatype response = Response nat body

text \<open>
  Lines 79-301: everything between the two guards and the cache write.  \<open>Inl message\<close>
  is an exception, which the \<^verbatim>\<open>catch\<close> of line 310 receives.
\<close>

definition analyse :: "env \<Rightarrow> string \<Rightarrow> ProductData \<Rightarrow> review list \<Rightarrow> string + AnalysisResult" where
  "analyse E url productInfo reviews =
     (case parseIndianPrice E (price productInfo) of
        Inl e \<Rightarrow> Inl e
      | Inr currentPrice \<Rightarrow>
     (case sentimentAnalysis E productInfo reviews of
        Inl e \<Rightarrow> Inl e
      | Inr sentiment_found \<Rightarrow>
     (case keyInsights E productInfo reviews of
        Inl e \<Rightarrow> Inl e
      | Inr insights_found \<Rightarrow>
     (case pros_found E productInfo reviews of
        Inl e \<Rightarrow> Inl e
      | Inr pros \<Rightarrow>
     (case cons_found E productInfo reviews of
        Inl e \<Rightarrow> Inl e
      | Inr cons \<Rightarrow>
     (case truthy_text E (discount_percentage productInfo) of
        Inl e \<Rightarrow> Inl e
      | Inr text \<Rightarrow>
          Inr \<lparr> r_title = title productInfo,
                r_productUrl = url,
                r_asin = asin productInfo,
                r_price_current = price productInfo,
                r_price_original = original_price productInfo,
                r_price_discount =
                  (if truthy (discount_percentage productInfo) then JStr (text @ ''%'')
                   else JNull),
                r_rating_average = rating productInfo,
                r_rating_count = reviewCount productInfo,
                r_availability = availability productInfo,
                r_images = images productInfo,
                r_features = features productInfo,
                r_description = description productInfo,
                r_reviews = take 25 reviews,
                r_sentiment = sentiment_found,
                r_keyInsights = insights_found,
                r_pros = pros_with_default productInfo pros,
                r_cons = cons_with_default cons,
                r_reviewCount = length reviews,
                r_cached = False,
                r_lastUpdated = t_reply E \<rparr>))))))"

text \<open>The \<^verbatim>\<open>catch\<close> of lines 310-331, on the message of the error.\<close>

definition catch_response :: "string \<Rightarrow> response" where
  "catch_response message =
     (if str_includes message ''rate limit'' \<or> str_includes message ''429'' then
        Response 429 (ErrorBody ''Rate limit exceeded''
          (Some ''Please wait a few minutes before analyzing another product''))
      else if str_includes message ''timeout'' then
        Response 408 (ErrorBody ''Analysis timeout''
          (Some ''The analysis is taking too long. Please try again.''))
      else Response 500 (ErrorBody ''Analysis failed'' (Some message)))"

text \<open>The reply of lines 64-67.\<close>

definition unable_response :: response where
  "unable_response =
     Response 400 (ErrorBody ''Unable to extract product information''
       (Some ''The product page may be protected or temporarily unavailable. Please try again in a few minutes.''))"

text \<open>
  Line 54.  \<open>replace_dp\<close> replaces the first \<^verbatim>\<open>/dp/\<close>; \<open>strip_query\<close> is
  \<^verbatim>\<open>replace(/\?.*$/, '')\<close>: the dot does not match a line terminator, so the
  match starts at the first question mark with no line terminator after it.
\<close>

fun replace_dp :: "string \<Rightarrow> string" where
  "replace_dp [] = []"
| "replace_dp (c # cs) =
     (if startsWith (c # cs) ''/dp/'' then ''/product-reviews/'' @ drop 4 (c # cs)
      else c # replace_dp cs)"

fun strip_query :: "string \<Rightarrow> string" where
  "strip_query [] = []"
| "strip_query (c # cs) =
     (if c = CHR ''?'' \<and> list_all (\<lambda>x. x \<noteq> CHR 0x0A \<and> x \<noteq> CHR 0x0D) cs then []
      else c # strip_query cs)"

definition reviewsUrl_of :: "string \<Rightarrow> string" where
  "reviewsUrl_of url =
     strip_query (replace_dp url) @ ''/ref=cm_cr_dp_d_show_all_btm?pageNumber=1&sortBy=recent''"

text \<open>Lines 23-31.\<close>

definition isValidAmazonUrl :: "env \<Rightarrow> string \<Rightarrow> bool" where
  "isValidAmazonUrl E url =
     (case url_hostname E url of
        None \<Rightarrow> False
      | Some h \<Rightarrow>
          (let hostname = toLowerCase h
           in str_includes hostname ''amazon'' \<or> str_includes hostname ''amzn''))"

text \<open>
  Lines 50-308, on a cache miss.  Both fetches are started and both settle
  (\<^verbatim>\<open>Promise.allSettled\<close>); the events of the product fetch are listed before those
  of the review fetch.  A fulfilled product fetch always carries an object, so
  \<^verbatim>\<open>!productData.value\<close> is false then, and a fulfilled review fetch always carries
  an array.
\<close>

definition fetch_and_analyse ::
  "env \<Rightarrow> AnalysisResult cache \<Rightarrow> string \<Rightarrow> response \<times> AnalysisResult cache \<times> event list" where
  "fetch_and_analyse E c url =
     (let (productData, evs1) = scrapeAmazonProduct E url;
          (reviewsData, evs2) = analyzeReviews E (reviewsUrl_of url);
          evs = evs1 @ evs2
      in case productData of
           Inl reason \<Rightarrow> (unable_response, c, evs)
         | Inr productInfo \<Rightarrow>
             if \<not> truthy (title productInfo) \<or> title productInfo = JStr ''N/A'' then
               (unable_response, c, evs)
             else
               (let reviews = (case reviewsData of Inr rs \<Rightarrow> rs | Inl reason \<Rightarrow> [])
                in case analyse E url productInfo reviews of
                     Inl message \<Rightarrow> (catch_response message, c, evs)
                   | Inr result \<Rightarrow>
                       (Response 200 (ResultBody result),
                        productCache_set (t_set E) c url result, evs)))"

text \<open>
  Lines 9-331: the handler from the \<^verbatim>\<open>url\<close> it has read from the request body
  (\<open>None\<close> is \<^verbatim>\<open>undefined\<close>), with the cache and the environment.  It
  returns the reply, the cache afterwards and the events it caused.
\<close>

definition handle ::
  "env \<Rightarrow> AnalysisResult cache \<Rightarrow> json option \<Rightarrow> response \<times> AnalysisResult cache \<times> event list" where
  "handle E c body_url =
     (case body_url of
        Some (JStr url) \<Rightarrow>
          if url = [] then (Response 400 (ErrorBody ''Valid URL is required'' None), c, [])
          else
            (case url_hostname E url of
               None \<Rightarrow> (Response 400 (ErrorBody ''Invalid URL format'' None), c, [])
             | Some h \<Rightarrow>
                 if \<not> isValidAmazonUrl E url then
                   (Response 400 (ErrorBody ''Only Amazon URLs are supported'' None), c, [])
                 else
                   (case productCache_get (TTL E) (t_get E) c url of
                      Some cachedResult \<Rightarrow>
                        (Response 200
                           (ResultBody (cachedResult\<lparr> r_cached := True, r_lastUpdated := t_reply E \<rparr>)),
                         c, [])
                    | None \<Rightarrow> fetch_and_analyse E c url))
      | _ \<Rightarrow> (Response 400 (ErrorBody ''Valid URL is required'' None), c, []))"

text \<open>The reply of the outer \<^verbatim>\<open>catch\<close>, lines 333-339.\<close>

definition failed_to_process :: "string \<Rightarrow> response" where
  "failed_to_process message =
     Response 500 (ErrorBody ''Failed to process request'' (Some message))"

text \<open>
  The whole handler, lines 5-340.  \<open>body\<close> is what \<^verbatim>\<open>await request.json()\<close>
  gives: \<open>Inl message\<close> when it rejects (the body is not a JSON document), \<open>Inr b\<close>
  when the body denotes \<open>b\<close>.  Reading \<^verbatim>\<open>url\<close> from \<^verbatim>\<open>null\<close> throws;
  reading it from any other value gives the property or \<^verbatim>\<open>undefined\<close>.  Both
  exceptions reach the outer \<^verbatim>\<open>catch\<close>; nothing in \<open>handle\<close> does, the inner
  \<^verbatim>\<open>catch\<close> and the guards return a reply.
\<close>

definition POST ::
  "env \<Rightarrow> AnalysisResult cache \<Rightarrow> string + json \<Rightarrow> response \<times> AnalysisResult cache \<times> event list" where
  "POST E c body =
     (case body of
        Inl message \<Rightarrow> (failed_to_process message, c, [])
      | Inr b \<Rightarrow>
          if b = JNull then
            (failed_to_process
               ''Cannot destructure property 'url' of '(intermediate value)' as it is null.'',
             c, [])
          else handle E c (get_prop b ''url''))"


section \<open>Typing and outcome predicates\<close>

text \<open>
  The types the \<^verbatim>\<open>ProductData\<close> interface declares for the fields that are copied
  from the payload: \<^verbatim>\<open>string\<close>, \<^verbatim>\<open>string | null\<close> and \<^verbatim>\<open>string[]\<close>.
\<close>

fun is_text :: "json \<Rightarrow> bool" where
  "is_text (JStr s) = True"
| "is_text v = False"

fun is_text_or_null :: "json \<Rightarrow> bool" where
  "is_text_or_null (JStr s) = True"
| "is_text_or_null JNull = True"
| "is_text_or_null v = False"

definition conforms :: "ProductData \<Rightarrow> bool" where
  "conforms p =
     (is_text (asin p) \<and> is_text (title p) \<and> is_text (price p)
      \<and> is_text_or_null (original_price p) \<and> is_text_or_null (discount_percentage p)
      \<and> is_text (availability p) \<and> list_all is_text (features p)
      \<and> is_text (description p) \<and> list_all is_text (images p))"

text \<open>The star field of every review is a string (or \<^verbatim>\<open>null\<close>).\<close>

definition stars_ok :: "review list \<Rightarrow> bool" where
  "stars_ok reviews = list_all (\<lambda>r. is_text_or_null (Stars r)) reviews"

text \<open>The guard of line 62 on a fulfilled product fetch.\<close>

definition usable :: "ProductData \<Rightarrow> bool" where
  "usable v = (truthy (title v) \<and> title v \<noteq> JStr ''N/A'')"

text \<open>
  The primary fetch of a request for \<open>url\<close> is unusable: it is rejected, or the title
  of its snapshot is falsy or the sentinel.
\<close>

definition primary_unusable :: "env \<Rightarrow> string \<Rightarrow> bool" where
  "primary_unusable E url =
     (case fst (scrapeAmazonProduct E url) of Inl reason \<Rightarrow> True | Inr v \<Rightarrow> \<not> usable v)"

definition primary_conforms :: "env \<Rightarrow> string \<Rightarrow> bool" where
  "primary_conforms E url =
     (case fst (scrapeAmazonProduct E url) of Inl reason \<Rightarrow> True | Inr v \<Rightarrow> conforms v)"

definition reviews_stars_ok :: "env \<Rightarrow> string \<Rightarrow> bool" where
  "reviews_stars_ok E url =
     (case fst (analyzeReviews E (reviewsUrl_of url)) of
        Inl reason \<Rightarrow> True
      | Inr rs \<Rightarrow> stars_ok rs)"

text \<open>A reply is a failure when its status is not 200.\<close>

fun failed :: "response \<Rightarrow> bool" where
  "failed (Response status b) = (status \<noteq> 200)"

text \<open>A request that passes the validation of lines 9-35 and misses the cache.\<close>

definition valid_miss :: "env \<Rightarrow> AnalysisResult cache \<Rightarrow> string \<Rightarrow> bool" where
  "valid_miss E c url =
     (url \<noteq> [] \<and> isValidAmazonUrl E url \<and> productCache_get (TTL E) (t_get E) c url = None)"


section \<open>A sample environment\<close>

text \<open>
  One concrete environment, on which the model is evaluated below.  Its built-in
  functions read plain decimal notation only, its arithmetic is exact, its URL reader
  knows \<^verbatim>\<open>https://\<close> addresses only, and its workers print one of a few
  documents, each named by a word that \<open>sample_parse\<close> maps to the value the document
  denotes.
\<close>

definition sample_hostname :: "string \<Rightarrow> string option" where
  "sample_hostname u =
     (if startsWith u ''https://'' \<and> length u > 8
      then Some (takeWhile (\<lambda>c. c \<noteq> CHR ''/'') (drop 8 u)) else None)"

definition is_digit :: "char \<Rightarrow> bool" where
  "is_digit c = (c \<in> set ''0123456789'')"

definition read_digits :: "string \<Rightarrow> nat" where
  "read_digits ds = foldl (\<lambda>n c. 10 * n + (of_char c - 48)) 0 ds"

definition sample_parseFloat :: "string \<Rightarrow> jsnum" where
  "sample_parseFloat s =
     (let ip = takeWhile is_digit s;
          rest = dropWhile is_digit s;
          fp = (case rest of [] \<Rightarrow> [] | c # cs \<Rightarrow> if c = CHR ''.'' then takeWhile is_digit cs else [])
      in if ip = [] \<and> fp = [] then NaN
         else Fin (of_nat (read_digits ip) + of_nat (read_digits fp) / 10 ^ length fp))"

definition sample_parseInt :: "string \<Rightarrow> jsnum" where
  "sample_parseInt s =
     (let ip = takeWhile is_digit s in if ip = [] then NaN else Fin (of_nat (read_digits ip)))"

fun digits_fuel :: "nat \<Rightarrow> nat \<Rightarrow> string" where
  "digits_fuel 0 n = []"
| "digits_fuel (Suc f) n =
     (if n < 10 then [char_of (48 + n)]
      else digits_fuel f (n div 10) @ [char_of (48 + n mod 10)])"

definition sample_num_str :: "rat \<Rightarrow> string" where
  "sample_num_str q =
     (let n = nat \<lfloor>q\<rfloor>; tenths = nat \<lfloor>(q - of_int \<lfloor>q\<rfloor>) * 10\<rfloor>
      in digits_fuel (Suc n) n @ (if tenths = 0 then [] else CHR ''.'' # digits_fuel 1 tenths))"

definition sample_product :: json where
  "sample_product =
     JObj [(''title'', JStr ''Steel Kettle''), (''price'', JStr ''$24.99''),
           (''rating'', JNum (9 / 2)), (''reviewCount'', JNum 120),
           (''availability'', JStr ''In Stock''), (''features'', JArr [JStr ''1.5 litre''])]"

definition sample_reviews :: json where
  "sample_reviews =
     JArr [JObj [(''Description'', JStr ''Boils fast''), (''Stars'', JStr ''5.0 out of 5 stars'')],
           JObj [(''Description'', JStr ''Lid is loose''), (''Stars'', JStr ''2.0 out of 5 stars'')]]"

definition numeric_reviews :: json where
  "numeric_reviews = JArr [JObj [(''Description'', JStr ''Boils fast''), (''Stars'', JNum 5)]]"

definition sample_parse :: "string \<Rightarrow> json option" where
  "sample_parse out =
     (if out = ''PRODUCT'' then Some sample_product
      else if out = ''REVIEWS'' then Some sample_reviews
      else if out = ''NUMERIC'' then Some numeric_reviews
      else if out = ''UNTITLED'' then Some (JObj [(''price'', JStr ''$24.99'')])
      else if out = ''SCALAR'' then Some (JNum 7)
      else if out = ''PRICED'' then
        Some (JObj [(''title'', JStr ''Steel Kettle''), (''price'', JNum (2499 / 100))])
      else if out = ''ODD'' then
        Some (JObj [(''title'', JStr ''Steel Kettle''),
                    (''rating'', JObj [(''toString'', JNum 0)])])
      else None)"

text \<open>
  Workers: both succeed; every attempt is rate limited; every attempt crashes; the first
  two attempts are rate limited; the review worker crashes; the review worker prints
  something that is not an array; the review worker gives star ratings as numbers; the
  product worker gives the price as a number and the review worker crashes; the product
  worker gives a rating that no conversion to a number accepts; the product worker
  prints a document with no title.
\<close>

definition worker_ok :: "string \<Rightarrow> string \<Rightarrow> nat \<Rightarrow> proc_result" where
  "worker_ok script arg n =
     (if script = ''scripts/product.py'' then Closed (Some 0) ''PRODUCT'' []
      else Closed (Some 0) ''REVIEWS'' [])"

definition worker_rate_limited :: "string \<Rightarrow> string \<Rightarrow> nat \<Rightarrow> proc_result" where
  "worker_rate_limited script arg n = Closed (Some 1) [] ''HTTP Error 429: Too Many Requests''"

definition worker_crashing :: "string \<Rightarrow> string \<Rightarrow> nat \<Rightarrow> proc_result" where
  "worker_crashing script arg n = Closed (Some 1) [] ''Traceback (most recent call last)''"

definition worker_flaky :: "string \<Rightarrow> string \<Rightarrow> nat \<Rightarrow> proc_result" where
  "worker_flaky script arg n =
     (if n < 2 then worker_rate_limited script arg n else worker_ok script arg n)"

definition worker_reviews_down :: "string \<Rightarrow> string \<Rightarrow> nat \<Rightarrow> proc_result" where
  "worker_reviews_down script arg n =
     (if script = ''scripts/product.py'' then Closed (Some 0) ''PRODUCT'' []
      else worker_crashing script arg n)"

definition worker_reviews_scalar :: "string \<Rightarrow> string \<Rightarrow> nat \<Rightarrow> proc_result" where
  "worker_reviews_scalar script arg n =
     (if script = ''scripts/product.py'' then Closed (Some 0) ''PRODUCT'' []
      else Closed (Some 0) ''SCALAR'' [])"

definition worker_numeric_stars :: "string \<Rightarrow> string \<Rightarrow> nat \<Rightarrow> proc_result" where
  "worker_numeric_stars script arg n =
     (if script = ''scripts/product.py'' then Closed (Some 0) ''PRODUCT'' []
      else Closed (Some 0) ''NUMERIC'' [])"

definition worker_numeric_price :: "string \<Rightarrow> string \<Rightarrow> nat \<Rightarrow> proc_result" where
  "worker_numeric_price script arg n =
     (if script = ''scripts/product.py'' then Closed (Some 0) ''PRICED'' []
      else worker_crashing script arg n)"


definition worker_untitled :: "string \<Rightarrow> string \<Rightarrow> nat \<Rightarrow> proc_result" where
  "worker_untitled script arg n =
     (if script = ''scripts/product.py'' then Closed (Some 0) ''UNTITLED'' []
      else Closed (Some 0) ''REVIEWS'' [])"

text \<open>The sample environment with worker \<open>W\<close>, for a request that arrives at time \<open>t\<close>.\<close>

definition sample_env :: "(string \<Rightarrow> string \<Rightarrow> nat \<Rightarrow> proc_result) \<Rightarrow> int \<Rightarrow> env" where
  "sample_env W t =
     \<lparr> url_hostname = sample_hostname, JSON_parse = sample_parse, worker = W,
       parseFloat = sample_parseFloat, parseInt = sample_parseInt,
       num_str = sample_num_str, str_num = sample_parseFloat, to_double = (\<lambda>x. x),
       TTL = 1800000, t_get = t, t_reply = t + 1, t_set = t + 2 \<rparr>"

definition sample_url :: string where
  "sample_url = ''https://www.amazon.in/dp/B0KETTLE01?th=1''"


definition sample_snapshot :: ProductData where
  "sample_snapshot =
     \<lparr> asin = JStr ''N/A'', title = JStr ''Steel Kettle'', price = JStr ''$24.99'',
       original_price = JNull, discount_percentage = JNull, rating = Fin (9 / 2),
       reviewCount = Fin 120, availability = JStr ''In Stock'',
       features = [JStr ''1.5 litre''], description = JStr ''N/A'', images = [] \<rparr>"

text \<open>The result the handler assembles in the sample environment at time 1000.\<close>

definition sample_result :: AnalysisResult where
  "sample_result =
     \<lparr> r_title = JStr ''Steel Kettle'',
       r_productUrl = ''https://www.amazon.in/dp/B0KETTLE01?th=1'',
       r_asin = JStr ''N/A'', r_price_current = JStr ''$24.99'',
       r_price_original = JNull, r_price_discount = JNull,
       r_rating_average = Fin (9 / 2), r_rating_count = Fin 120,
       r_availability = JStr ''In Stock'', r_images = [],
       r_features = [JStr ''1.5 litre''], r_description = JStr ''N/A'',
       r_reviews =
         [\<lparr> Description = JStr ''Boils fast'', Stars = JStr ''5.0 out of 5 stars'' \<rparr>,
          \<lparr> Description = JStr ''Lid is loose'', Stars = JStr ''2.0 out of 5 stars'' \<rparr>],
       r_sentiment = \<lparr> positive = 50, neutral = 50, negative = 0 \<rparr>,
       r_keyInsights =
         [''Highly rated product with excellent customer satisfaction'',
          ''Currently available for immediate purchase'',
          ''Analysis based on 2 recent customer reviews''],
       r_pros =
         [''High customer rating of 4.5/5.0'', ''Available for immediate purchase'',
          ''Trusted by 120 customers''],
       r_cons = [''Limited or no discount currently available''],
       r_reviewCount = 2, r_cached = False, r_lastUpdated = 1001 \<rparr>"


section \<open>Properties of the adapter\<close>

lemma startsWith_iff: "startsWith s t \<longleftrightarrow> (\<exists>q. s = t @ q)"
  by (induction s t rule: startsWith.induct) auto

lemma str_includes_iff: "str_includes s t \<longleftrightarrow> (\<exists>p q. s = p @ t @ q)"
proof (induction s)
  case Nil
  then show ?case by simp
next
  case (Cons x xs)
  show ?case
  proof
    assume "str_includes (x # xs) t"
    then consider "startsWith (x # xs) t" | "str_includes xs t" by auto
    then show "\<exists>p q. x # xs = p @ t @ q"
    proof cases
      case 1
      then obtain q where "x # xs = t @ q" by (auto simp: startsWith_iff)
      then have "x # xs = [] @ t @ q" by simp
      then show ?thesis by blast
    next
      case 2
      then obtain p q where "xs = p @ t @ q" using Cons.IH by auto
      then have "x # xs = (x # p) @ t @ q" by simp
      then show ?thesis by blast
    qed
  next
    assume "\<exists>p q. x # xs = p @ t @ q"
    then obtain p q where pq: "x # xs = p @ t @ q" by auto
    show "str_includes (x # xs) t"
    proof (cases p)
      case Nil
      with pq have "startsWith (x # xs) t" by (auto simp: startsWith_iff)
      then show ?thesis by simp
    next
      case (Cons y ys)
      with pq have "xs = ys @ t @ q" by simp
      then have "str_includes xs t" using Cons.IH by auto
      then show ?thesis by simp
    qed
  qed
qed

lemma attempts_made_backoff_trace:
  "k \<le> j \<Longrightarrow> attempts_made (backoff_trace s a k j) = Suc (j - k)"
proof (induction "j - k" arbitrary: k)
  case 0
  then show ?case by (simp add: attempts_made_def backoff_trace_def)
next
  case (Suc d)
  then have kj: "k < j" by simp
  then have "[k..<j] = k # [Suc k..<j]" by (simp add: upt_conv_Cons)
  then have "backoff_trace s a k j =
      Spawn s a k # Sleep (RETRY_DELAY * 2 ^ k) # backoff_trace s a (Suc k) j"
    by (simp add: backoff_trace_def)
  moreover have "attempts_made (backoff_trace s a (Suc k) j) = Suc (j - Suc k)"
    using Suc by simp
  ultimately show ?case using kj by (simp add: attempts_made_def)
qed

lemma retry_from_trace:
  "k \<le> m \<Longrightarrow>
   \<exists>j. k \<le> j \<and> j \<le> m \<and>
       snd (retry_from E s a m k l) = backoff_trace s a k j \<and>
       fst (retry_from E s a m k l) = attempt_outcome E (worker E s a j) \<and>
       (\<forall>i. k \<le> i \<and> i < j \<longrightarrow> isl (attempt_outcome E (worker E s a i))) \<and>
       (j < m \<longrightarrow> \<not> isl (attempt_outcome E (worker E s a j)))"
proof (induction "m - k" arbitrary: k l)
  case 0
  then have km: "k = m" by simp
  have "snd (retry_from E s a m m l) = backoff_trace s a m m
      \<and> fst (retry_from E s a m m l) = attempt_outcome E (worker E s a m)"
    by (cases "attempt_outcome E (worker E s a m)") (simp_all add: backoff_trace_def)
  then show ?case using km by auto
next
  case (Suc d)
  then have lt: "k < m" by simp
  show ?case
  proof (cases "attempt_outcome E (worker E s a k)")
    case (Inr payload)
    then have "snd (retry_from E s a m k l) = backoff_trace s a k k
        \<and> fst (retry_from E s a m k l) = attempt_outcome E (worker E s a k)"
      using lt by (simp add: backoff_trace_def)
    moreover have "\<not> isl (attempt_outcome E (worker E s a k))" using Inr by simp
    ultimately show ?thesis using lt by (intro exI[of _ k]) auto
  next
    case (Inl err)
    have "d = m - Suc k" "Suc k \<le> m" using Suc.hyps lt by auto
    from Suc.hyps(1)[OF this, of "Some err"] obtain j where j:
      "Suc k \<le> j" "j \<le> m"
      "snd (retry_from E s a m (Suc k) (Some err)) = backoff_trace s a (Suc k) j"
      "fst (retry_from E s a m (Suc k) (Some err)) = attempt_outcome E (worker E s a j)"
      "\<forall>i. Suc k \<le> i \<and> i < j \<longrightarrow> isl (attempt_outcome E (worker E s a i))"
      "j < m \<longrightarrow> \<not> isl (attempt_outcome E (worker E s a j))"
      by blast
    have kj: "k < j" using j(1) by simp
    then have "[k..<j] = k # [Suc k..<j]" by (simp add: upt_conv_Cons)
    then have bt: "backoff_trace s a k j =
        Spawn s a k # Sleep (RETRY_DELAY * 2 ^ k) # backoff_trace s a (Suc k) j"
      by (simp add: backoff_trace_def)
    have unf: "retry_from E s a m k l =
        (fst (retry_from E s a m (Suc k) (Some err)),
         Spawn s a k # Sleep (getRetryDelay k) # snd (retry_from E s a m (Suc k) (Some err)))"
      using Inl lt by (simp add: case_prod_beta)
    have "\<forall>i. k \<le> i \<and> i < j \<longrightarrow> isl (attempt_outcome E (worker E s a i))"
    proof (intro allI impI)
      fix i assume "k \<le> i \<and> i < j"
      then consider "i = k" | "Suc k \<le> i \<and> i < j" by linarith
      then show "isl (attempt_outcome E (worker E s a i))"
        using Inl j(5) by cases auto
    qed
    then show ?thesis
      using j kj unf bt by (intro exI[of _ j]) (simp add: getRetryDelay_def)
  qed
qed

section \<open>Classification of one attempt\<close>

text \<open>
  Claim C5.  When the worker exits with a status other than zero, the attempt is
  rejected with \<open>RATE_LIMITED\<close> exactly when the diagnostic stream contains one of
  the substrings "429", "rate limit", "too many requests" or "blocked", and with the
  generic process error otherwise; when it exits with status zero and its output does
  not parse, the attempt is rejected with a parse error.
\<close>

theorem attempt_outcome_classification:
  "(code \<noteq> Some 0 \<longrightarrow>
      (attempt_outcome E (Closed code out err) = Inl RATE_LIMITED \<longleftrightarrow>
         (\<exists>p q. err = p @ ''429'' @ q) \<or> (\<exists>p q. err = p @ ''rate limit'' @ q) \<or>
         (\<exists>p q. err = p @ ''too many requests'' @ q) \<or> (\<exists>p q. err = p @ ''blocked'' @ q))
      \<and> (attempt_outcome E (Closed code out err) \<noteq> Inl RATE_LIMITED \<longrightarrow>
           attempt_outcome E (Closed code out err) = Inl (ProcessFailed code out err)))
   \<and> (JSON_parse E out = None \<longrightarrow>
        attempt_outcome E (Closed (Some 0) out err) = Inl (ParseFailed out))"
  by (simp add: attempt_outcome_def rate_limit_indicator_def str_includes_iff)

theorem attempt_outcome_classification_witness:
  "Some (1::int) \<noteq> Some 0
   \<and> attempt_outcome (sample_env worker_ok 0)
        (Closed (Some 1) ''<html>'' ''HTTP Error 429: Too Many Requests'') = Inl RATE_LIMITED
   \<and> JSON_parse (sample_env worker_ok 0) ''<html>'' = None
   \<and> attempt_outcome (sample_env worker_ok 0)
        (Closed (Some 0) ''<html>'' ''HTTP Error 429: Too Many Requests'') = Inl (ParseFailed ''<html>'')"
proof -
  have a: "''HTTP Error 429: Too Many Requests'' = ''HTTP Error '' @ ''429'' @ '': Too Many Requests''"
    by simp
  have n: "Some (1::int) \<noteq> Some 0" by simp
  have p: "JSON_parse (sample_env worker_ok 0) ''<html>'' = None"
    by (simp add: sample_env_def sample_parse_def)
  note t = attempt_outcome_classification
    [where code = "Some 1" and E = "sample_env worker_ok 0" and out = "''<html>''"
       and err = "''HTTP Error 429: Too Many Requests''"]
  from t n a have 1: "attempt_outcome (sample_env worker_ok 0)
      (Closed (Some 1) ''<html>'' ''HTTP Error 429: Too Many Requests'') = Inl RATE_LIMITED"
    by blast
  from t p have 3: "attempt_outcome (sample_env worker_ok 0)
      (Closed (Some 0) ''<html>'' ''HTTP Error 429: Too Many Requests'') = Inl (ParseFailed ''<html>'')"
    by blast
  show ?thesis using 1 3 p by simp
qed

section \<open>The retry policy\<close>

text \<open>
  Claim C4.  An invocation with retry budget \<open>maxRetries\<close> makes at most
  \<open>maxRetries + 1\<close> attempts (at most 3 with the default budget).  Its trace is
  \<open>backoff_trace\<close> up to a last attempt \<open>j\<close>: every attempt \<open>i\<close> before
  \<open>j\<close> failed and was followed by a sleep of \<open>RETRY_DELAY * 2 ^ i\<close> and by the
  next attempt; the invocation stops before the budget is used up only at an attempt that
  succeeded, so every failed attempt but the last of the budget is retried; and the
  outcome of the invocation is the outcome of attempt \<open>j\<close>.  If every attempt fails,
  the last attempt is number \<open>maxRetries\<close> and the invocation is rejected with the
  failure of that attempt.
\<close>

theorem runPythonScript_retry_policy:
  "attempts_made (snd (runPythonScript E s a maxRetries)) \<le> maxRetries + 1
   \<and> attempts_made (snd (runPythonScript E s a MAX_RETRIES)) \<le> 3
   \<and> (\<exists>j. j \<le> maxRetries
          \<and> snd (runPythonScript E s a maxRetries) = backoff_trace s a 0 j
          \<and> fst (runPythonScript E s a maxRetries) = attempt_outcome E (worker E s a j)
          \<and> (\<forall>i. i < j \<longrightarrow> isl (attempt_outcome E (worker E s a i)))
          \<and> (j < maxRetries \<longrightarrow> \<not> isl (attempt_outcome E (worker E s a j))))
   \<and> ((\<forall>i. i \<le> maxRetries \<longrightarrow> isl (attempt_outcome E (worker E s a i))) \<longrightarrow>
         snd (runPythonScript E s a maxRetries) = backoff_trace s a 0 maxRetries
         \<and> fst (runPythonScript E s a maxRetries) = attempt_outcome E (worker E s a maxRetries)
         \<and> isl (fst (runPythonScript E s a maxRetries)))"
proof -
  have tr: "\<exists>j. j \<le> m
          \<and> snd (runPythonScript E s a m) = backoff_trace s a 0 j
          \<and> fst (runPythonScript E s a m) = attempt_outcome E (worker E s a j)
          \<and> (\<forall>i. i < j \<longrightarrow> isl (attempt_outcome E (worker E s a i)))
          \<and> (j < m \<longrightarrow> \<not> isl (attempt_outcome E (worker E s a j)))" for m
    using retry_from_trace [of 0 m E s a None] by (simp add: runPythonScript_def)
  have cnt: "attempts_made (snd (runPythonScript E s a m)) \<le> m + 1" for m
  proof -
    from tr [of m] obtain j where "j \<le> m"
      "snd (runPythonScript E s a m) = backoff_trace s a 0 j" by blast
    then show ?thesis by (simp add: attempts_made_backoff_trace)
  qed
  have allfail: "snd (runPythonScript E s a maxRetries) = backoff_trace s a 0 maxRetries
         \<and> fst (runPythonScript E s a maxRetries) = attempt_outcome E (worker E s a maxRetries)
         \<and> isl (fst (runPythonScript E s a maxRetries))"
    if all: "\<forall>i. i \<le> maxRetries \<longrightarrow> isl (attempt_outcome E (worker E s a i))"
  proof -
    from tr [of maxRetries] obtain j where j: "j \<le> maxRetries"
      "snd (runPythonScript E s a maxRetries) = backoff_trace s a 0 j"
      "fst (runPythonScript E s a maxRetries) = attempt_outcome E (worker E s a j)"
      "j < maxRetries \<longrightarrow> \<not> isl (attempt_outcome E (worker E s a j))" by blast
    from all j(1) have "isl (attempt_outcome E (worker E s a j))" by blast
    with j(4) j(1) have "j = maxRetries" by auto
    with j all show ?thesis by simp
  qed
  have three: "attempts_made (snd (runPythonScript E s a MAX_RETRIES)) \<le> 3"
    using cnt [of MAX_RETRIES] by (simp add: MAX_RETRIES_def)
  from tr [of maxRetries] have ex: "\<exists>j. j \<le> maxRetries
          \<and> snd (runPythonScript E s a maxRetries) = backoff_trace s a 0 j
          \<and> fst (runPythonScript E s a maxRetries) = attempt_outcome E (worker E s a j)
          \<and> (\<forall>i. i < j \<longrightarrow> isl (attempt_outcome E (worker E s a i)))
          \<and> (j < maxRetries \<longrightarrow> \<not> isl (attempt_outcome E (worker E s a j)))"
    by blast
  show ?thesis using cnt [of maxRetries] three ex allfail by blast
qed

lemma worker_rate_limited_outcome:
  "attempt_outcome (sample_env worker_rate_limited t) (worker (sample_env worker_rate_limited t) s a i)
     = Inl RATE_LIMITED"
  by (simp add: sample_env_def worker_rate_limited_def attempt_outcome_def rate_limit_indicator_def)

theorem runPythonScript_retry_policy_witness:
  "isl (attempt_outcome (sample_env worker_rate_limited 0)
          (worker (sample_env worker_rate_limited 0) ''scripts/product.py'' sample_url 0))
   \<and> isl (attempt_outcome (sample_env worker_rate_limited 0)
          (worker (sample_env worker_rate_limited 0) ''scripts/product.py'' sample_url 1))
   \<and> isl (attempt_outcome (sample_env worker_rate_limited 0)
          (worker (sample_env worker_rate_limited 0) ''scripts/product.py'' sample_url 2))
   \<and> fst (runPythonScript (sample_env worker_rate_limited 0) ''scripts/product.py'' sample_url 2)
       = Inl RATE_LIMITED
   \<and> snd (runPythonScript (sample_env worker_rate_limited 0) ''scripts/product.py'' sample_url 2)
       = [Spawn ''scripts/product.py'' sample_url 0, Sleep 1000,
          Spawn ''scripts/product.py'' sample_url 1, Sleep 2000,
          Spawn ''scripts/product.py'' sample_url 2]"
proof -
  let ?E = "sample_env worker_rate_limited 0"
  have all: "\<forall>i. i \<le> 2 \<longrightarrow> isl (attempt_outcome ?E (worker ?E ''scripts/product.py'' sample_url i))"
    by (simp add: worker_rate_limited_outcome)
  have bt: "backoff_trace ''scripts/product.py'' sample_url 0 2
      = [Spawn ''scripts/product.py'' sample_url 0, Sleep 1000,
         Spawn ''scripts/product.py'' sample_url 1, Sleep 2000,
         Spawn ''scripts/product.py'' sample_url 2]"
    by (simp add: backoff_trace_def RETRY_DELAY_def upt_rec)
  from runPythonScript_retry_policy [of ?E "''scripts/product.py''" sample_url 2] all
  have "snd (runPythonScript ?E ''scripts/product.py'' sample_url 2)
          = backoff_trace ''scripts/product.py'' sample_url 0 2
      \<and> fst (runPythonScript ?E ''scripts/product.py'' sample_url 2)
          = attempt_outcome ?E (worker ?E ''scripts/product.py'' sample_url 2)"
    by blast
  then show ?thesis by (simp add: bt worker_rate_limited_outcome)
qed


text \<open>
  The example of the specification: the first two attempts are rate limited and the third
  succeeds; the payload is returned after sleeps of 1000 ms and 2000 ms.
\<close>

lemma runPythonScript_flaky:
  "runPythonScript (sample_env worker_flaky 0) ''scripts/product.py'' sample_url MAX_RETRIES
     = (Inr sample_product,
        [Spawn ''scripts/product.py'' sample_url 0, Sleep 1000,
         Spawn ''scripts/product.py'' sample_url 1, Sleep 2000,
         Spawn ''scripts/product.py'' sample_url 2])"
  by code_simp

section \<open>The product snapshot\<close>





text \<open>\<^verbatim>\<open>Number\<close> throws on no value but an array or an object.\<close>

lemma Number_js_scalar:
  "(\<forall>xs. v \<noteq> JArr xs) \<Longrightarrow> (\<forall>kvs. v \<noteq> JObj kvs) \<Longrightarrow> \<exists>n. Number_js E v = Inr n"
  by (cases v) (simp_all add: Number_js_def)







section \<open>Properties of the handler\<close>

lemma isValidAmazonUrl_hostname:
  "isValidAmazonUrl E url \<Longrightarrow> \<exists>h. url_hostname E url = Some h"
  by (cases "url_hostname E url") (simp_all add: isValidAmazonUrl_def)

lemma POST_valid:
  "url \<noteq> [] \<Longrightarrow> isValidAmazonUrl E url \<Longrightarrow>
   handle E c (Some (JStr url)) =
     (case productCache_get (TTL E) (t_get E) c url of
        Some cachedResult \<Rightarrow>
          (Response 200 (ResultBody (cachedResult\<lparr> r_cached := True, r_lastUpdated := t_reply E \<rparr>)),
           c, [])
      | None \<Rightarrow> fetch_and_analyse E c url)"
  using isValidAmazonUrl_hostname [of E url] by (auto simp: handle_def)

lemma POST_valid_miss:
  "valid_miss E c url \<Longrightarrow> handle E c (Some (JStr url)) = fetch_and_analyse E c url"
  by (simp add: valid_miss_def POST_valid)

lemma fetch_rejected:
  "fst (scrapeAmazonProduct E url) = Inl reason \<Longrightarrow>
   fst (fetch_and_analyse E c url) = unable_response \<and> fst (snd (fetch_and_analyse E c url)) = c"
  by (cases "scrapeAmazonProduct E url"; cases "analyzeReviews E (reviewsUrl_of url)")
     (simp add: fetch_and_analyse_def)

lemma fetch_unusable:
  "fst (scrapeAmazonProduct E url) = Inr v \<Longrightarrow> \<not> usable v \<Longrightarrow>
   fst (fetch_and_analyse E c url) = unable_response \<and> fst (snd (fetch_and_analyse E c url)) = c"
  by (cases "scrapeAmazonProduct E url"; cases "analyzeReviews E (reviewsUrl_of url)")
     (auto simp: fetch_and_analyse_def usable_def)

text \<open>The reviews the handler works with: those of a fulfilled review fetch, else none.\<close>

lemma fetch_usable:
  "fst (scrapeAmazonProduct E url) = Inr v \<Longrightarrow> usable v \<Longrightarrow>
   fetch_and_analyse E c url =
     (let reviews = (case fst (analyzeReviews E (reviewsUrl_of url)) of Inr rs \<Rightarrow> rs | Inl reason \<Rightarrow> []);
          evs = snd (scrapeAmazonProduct E url) @ snd (analyzeReviews E (reviewsUrl_of url))
      in case analyse E url v reviews of
           Inl message \<Rightarrow> (catch_response message, c, evs)
         | Inr result \<Rightarrow>
             (Response 200 (ResultBody result), productCache_set (t_set E) c url result, evs))"
  by (cases "scrapeAmazonProduct E url"; cases "analyzeReviews E (reviewsUrl_of url)")
     (auto simp: fetch_and_analyse_def usable_def)

lemma failed_catch_response: "failed (catch_response m)"
  by (simp add: catch_response_def)

lemma failed_unable_response: "failed unable_response"
  by (simp add: unable_response_def)

subsection \<open>The derived fields\<close>

lemma map_result_total:
  "list_all (\<lambda>x. \<exists>y. f x = Inr y) xs \<Longrightarrow> \<exists>ys. map_result f xs = Inr ys \<and> length ys = length xs"
  by (induction xs) auto

lemma parseStars_total:
  "is_text_or_null v \<Longrightarrow> \<exists>n. parseStars E who d v = Inr n"
  by (cases v) (simp_all add: parseStars_def)

lemma stars_total:
  "stars_ok rs \<Longrightarrow>
   \<exists>ys. map_result (\<lambda>r. parseStars E who d (Stars r)) rs = Inr ys \<and> length ys = length rs"
proof -
  assume "stars_ok rs"
  then have "list_all (\<lambda>r. \<exists>y. parseStars E who d (Stars r) = Inr y) rs"
    by (simp add: stars_ok_def list_all_iff parseStars_total)
  then show ?thesis by (rule map_result_total)
qed

lemma parseIndianPrice_total: "is_text pr \<Longrightarrow> \<exists>n. parseIndianPrice E pr = Inr n"
  by (cases pr) (simp_all add: parseIndianPrice_def Let_def)

lemma sentimentAnalysis_total: "stars_ok rs \<Longrightarrow> \<exists>s. sentimentAnalysis E p rs = Inr s"
proof -
  assume "stars_ok rs"
  from stars_total [OF this, of E "''review''" "''3''"] obtain ys where
    "map_result (\<lambda>r. parseStars E ''review'' ''3'' (Stars r)) rs = Inr ys" by blast
  then show ?thesis by (simp add: sentimentAnalysis_def Let_def)
qed

lemma sentimentAnalysis_default:
  "\<not> truthy_num (rating p) \<Longrightarrow> sentimentAnalysis E p [] = Inr default_sentiment"
  by (simp add: sentimentAnalysis_def)

lemma availabilityInsight_total: "is_text a \<Longrightarrow> \<exists>xs. availabilityInsight a = Inr xs"
  by (cases a) (simp_all add: availabilityInsight_def)

lemma truthy_text_total: "is_text_or_null d \<Longrightarrow> \<exists>s. truthy_text E d = Inr s"
  by (cases d) (simp_all add: truthy_text_def)

lemma discountInsight_total: "is_text_or_null d \<Longrightarrow> \<exists>xs. discountInsight E d = Inr xs"
  by (cases d) (simp_all add: discountInsight_def Let_def)

lemma keyInsights_total:
  assumes "is_text (availability p)" and "is_text_or_null (discount_percentage p)"
  shows "\<exists>k. keyInsights E p rs = Inr k"
proof -
  from availabilityInsight_total [OF assms(1)] obtain av where
    av: "availabilityInsight (availability p) = Inr av" by blast
  from discountInsight_total [OF assms(2)] obtain di where
    di: "discountInsight E (discount_percentage p) = Inr di" by blast
  show ?thesis by (simp add: keyInsights_def Let_def av di)
qed

lemma keyInsights_nonempty: "keyInsights E p rs = Inr k \<Longrightarrow> k \<noteq> []"
  by (auto simp: keyInsights_def Let_def split: sum.splits if_splits)

lemma availability_includes_total: "is_text a \<Longrightarrow> \<exists>b. availability_includes a t = Inr b"
  by (cases a) (simp_all add: availability_includes_def)

lemma count_reviews_total: "stars_ok rs \<Longrightarrow> \<exists>n. count_reviews E keep b rs = Inr n"
proof -
  assume "stars_ok rs"
  from stars_total [OF this, of E "''r''" "''0''"] obtain ys where
    "map_result (\<lambda>r. parseStars E ''r'' ''0'' (Stars r)) rs = Inr ys" by blast
  then show ?thesis by (simp add: count_reviews_def)
qed

lemma pros_found_total:
  assumes "is_text (availability p)" "stars_ok rs" "is_text_or_null (discount_percentage p)"
  shows "\<exists>xs. pros_found E p rs = Inr xs"
proof -
  from truthy_text_total [OF assms(3)] obtain tx where
    tx: "truthy_text E (discount_percentage p) = Inr tx" by blast
  from availability_includes_total [OF assms(1)] obtain b where
    b: "availability_includes (availability p) ''in stock'' = Inr b" by blast
  from count_reviews_total [OF assms(2)] obtain n where
    n: "count_reviews E num_ge 4 rs = Inr n" by blast
  show ?thesis by (simp add: pros_found_def Let_def b n tx)
qed

lemma cons_found_total:
  assumes "is_text (availability p)" "stars_ok rs" "is_text_or_null (discount_percentage p)"
  shows "\<exists>xs. cons_found E p rs = Inr xs"
proof -
  from truthy_text_total [OF assms(3)] obtain tx where
    tx: "truthy_text E (discount_percentage p) = Inr tx" by blast
  from availability_includes_total [OF assms(1)] obtain b where
    b: "availability_includes (availability p) ''out of stock'' = Inr b" by blast
  from count_reviews_total [OF assms(2)] obtain n where
    n: "count_reviews E num_le 2 rs = Inr n" by blast
  show ?thesis by (simp add: cons_found_def Let_def b n tx)
qed

lemma pros_with_default_nonempty: "pros_with_default p xs \<noteq> []"
  by (simp add: pros_with_default_def)

lemma cons_with_default_nonempty: "cons_with_default xs \<noteq> []"
  by (simp add: cons_with_default_def)

lemma analyse_total:
  assumes "conforms p" "stars_ok rs"
  shows "\<exists>r. analyse E url p rs = Inr r"
proof -
  from assms(1) have a: "is_text (availability p)" and pr: "is_text (price p)"
    and d: "is_text_or_null (discount_percentage p)"
    by (simp_all add: conforms_def)
  from parseIndianPrice_total [OF pr] obtain n where 1: "parseIndianPrice E (price p) = Inr n" by blast
  from sentimentAnalysis_total [OF assms(2)] obtain s where 2: "sentimentAnalysis E p rs = Inr s" by blast
  from keyInsights_total [OF a d] obtain k where 3: "keyInsights E p rs = Inr k" by blast
  from pros_found_total [OF a assms(2) d] obtain ps where 4: "pros_found E p rs = Inr ps" by blast
  from cons_found_total [OF a assms(2) d] obtain cs where 5: "cons_found E p rs = Inr cs" by blast
  from truthy_text_total [OF d] obtain tx where
    6: "truthy_text E (discount_percentage p) = Inr tx" by blast
  show ?thesis by (simp add: analyse_def 1 2 3 4 5 6)
qed

lemma analyse_result:
  assumes "analyse E url p rs = Inr r"
  shows "r_keyInsights r \<noteq> [] \<and> r_pros r \<noteq> [] \<and> r_cons r \<noteq> []
       \<and> r_reviews r = take 25 rs \<and> r_reviewCount r = length rs
       \<and> sentimentAnalysis E p rs = Inr (r_sentiment r)"
  using assms
  by (auto simp: analyse_def pros_with_default_nonempty cons_with_default_nonempty
      keyInsights_nonempty split: sum.splits)

section \<open>The cache\<close>

text \<open>
  Claim C6.  Once \<open>now - storedAt \<ge> TTL\<close>, \<open>get\<close> returns absent for the key, as it
  does for a key that was never set; and after a \<open>set\<close> for the same key, \<open>get\<close>
  returns the new value for as long as that entry is younger than the time-to-live.
\<close>

theorem productCache_expiration:
  "(c k = Some e \<and> now - storedAt e \<ge> ttl \<longrightarrow> productCache_get ttl now c k = None)
   \<and> (c0 k = None \<longrightarrow> productCache_get ttl now c0 k = None)
   \<and> (later - stamp < ttl \<longrightarrow>
        productCache_get ttl later (productCache_set stamp c k v) k = Some v)"
  by (simp add: productCache_get_def productCache_set_def)

theorem productCache_expiration_witness:
  "[''k'' \<mapsto> \<lparr> entry_value = (7::nat), storedAt = 0 \<rparr>] ''k'' = Some \<lparr> entry_value = 7, storedAt = 0 \<rparr>
   \<and> (1800000::int) - storedAt \<lparr> entry_value = (7::nat), storedAt = 0 \<rparr> \<ge> 1800000
   \<and> productCache_get 1800000 1800000 [''k'' \<mapsto> \<lparr> entry_value = (7::nat), storedAt = 0 \<rparr>] ''k'' = None
   \<and> (Map.empty :: nat cache) ''k'' = None
   \<and> productCache_get 1800000 1800000 (Map.empty :: nat cache) ''k'' = None
   \<and> (1800005::int) - 1800001 < 1800000
   \<and> productCache_get 1800000 1800005
        (productCache_set 1800001 [''k'' \<mapsto> \<lparr> entry_value = (7::nat), storedAt = 0 \<rparr>] ''k'' 8) ''k''
      = Some 8"
  using productCache_expiration
    [where c = "[''k'' \<mapsto> \<lparr> entry_value = (7::nat), storedAt = 0 \<rparr>]" and k = "''k''"
       and e = "\<lparr> entry_value = (7::nat), storedAt = 0 \<rparr>" and now = 1800000 and ttl = 1800000
       and ?c0.0 = "Map.empty" and stamp = 1800001 and later = 1800005 and v = 8]
  by simp

section \<open>Cache hits\<close>

text \<open>
  Claim C7.  A request that passes the validation and whose URL has an entry in the
  cache that is not expired is answered with the stored value, marked as served from
  the cache and stamped with the clock reading of this request; the cache is left as it
  is and no event happens: no worker is spawned.
\<close>

theorem POST_cache_hit:
  assumes "url \<noteq> []" and "isValidAmazonUrl E url"
      and "c url = Some e" and "t_get E - storedAt e < TTL E"
  shows "handle E c (Some (JStr url)) =
           (Response 200 (ResultBody ((entry_value e)\<lparr> r_cached := True, r_lastUpdated := t_reply E \<rparr>)),
            c, [])"
  using assms by (simp add: POST_valid productCache_get_def)

lemma sample_url_nonempty: "sample_url \<noteq> []"
  by (simp add: sample_url_def)

lemma sample_url_valid: "isValidAmazonUrl (sample_env W t) sample_url"
  by code_simp

lemma first_request_reply:
  "fst (handle (sample_env worker_ok 1000) Map.empty (Some (JStr sample_url)))
     = Response 200 (ResultBody sample_result)"
  by code_simp

lemma first_request_events:
  "snd (snd (handle (sample_env worker_ok 1000) Map.empty (Some (JStr sample_url))))
     = [Spawn ''scripts/product.py'' sample_url 0,
        Spawn ''scripts/script2.py'' (reviewsUrl_of sample_url) 0]"
  by code_simp

lemma first_request_cache:
  "fst (snd (handle (sample_env worker_ok 1000) Map.empty (Some (JStr sample_url)))) sample_url
     = Some \<lparr> entry_value = sample_result, storedAt = 1002 \<rparr>"
  by code_simp

theorem POST_cache_hit_witness:
  "sample_url \<noteq> []
   \<and> isValidAmazonUrl (sample_env worker_crashing 61000) sample_url
   \<and> fst (snd (handle (sample_env worker_ok 1000) Map.empty (Some (JStr sample_url)))) sample_url
       = Some \<lparr> entry_value = sample_result, storedAt = 1002 \<rparr>
   \<and> t_get (sample_env worker_crashing 61000) - 1002 < TTL (sample_env worker_crashing 61000)
   \<and> handle (sample_env worker_crashing 61000)
        (fst (snd (handle (sample_env worker_ok 1000) Map.empty (Some (JStr sample_url)))))
        (Some (JStr sample_url))
      = (Response 200 (ResultBody (sample_result\<lparr> r_cached := True, r_lastUpdated := 61001 \<rparr>)),
         fst (snd (handle (sample_env worker_ok 1000) Map.empty (Some (JStr sample_url)))), [])"
proof -
  let ?E = "sample_env worker_crashing 61000"
  let ?c = "fst (snd (handle (sample_env worker_ok 1000) Map.empty (Some (JStr sample_url))))"
  have t: "t_get ?E - storedAt \<lparr> entry_value = sample_result, storedAt = 1002 \<rparr> < TTL ?E"
    "t_reply ?E = 61001"
    by (simp_all add: sample_env_def)
  from POST_cache_hit [where E = ?E and c = ?c and url = sample_url
      and e = "\<lparr> entry_value = sample_result, storedAt = 1002 \<rparr>",
      OF sample_url_nonempty sample_url_valid first_request_cache t(1)]
  have "handle ?E ?c (Some (JStr sample_url))
      = (Response 200 (ResultBody (sample_result\<lparr> r_cached := True, r_lastUpdated := 61001 \<rparr>)), ?c, [])"
    by (simp add: t(2))
  then show ?thesis
    using sample_url_nonempty sample_url_valid first_request_cache t(1) by simp
qed

section \<open>Invalid input\<close>

lemma POST_decoded: "b \<noteq> JNull \<Longrightarrow> POST E c (Inr b) = handle E c (get_prop b ''url'')"
  by (simp add: POST_def)

lemma handle_invalid_input:
  assumes "body_url = None \<or> (\<forall>s. body_url \<noteq> Some (JStr s))
     \<or> (\<exists>s. body_url = Some (JStr s) \<and> url_hostname E s = None)
     \<or> (\<exists>s h. body_url = Some (JStr s) \<and> url_hostname E s = Some h
            \<and> \<not> str_includes (toLowerCase h) ''amazon'' \<and> \<not> str_includes (toLowerCase h) ''amzn'')"
  shows "\<exists>msg. handle E c body_url = (Response 400 (ErrorBody msg None), c, [])"
proof -
  consider (none) "body_url = None" | (other) "\<forall>s. body_url \<noteq> Some (JStr s)"
    | (unparsed) s where "body_url = Some (JStr s)" "url_hostname E s = None"
    | (foreign) s h where "body_url = Some (JStr s)" "url_hostname E s = Some h"
        "\<not> str_includes (toLowerCase h) ''amazon''" "\<not> str_includes (toLowerCase h) ''amzn''"
    using assms by blast
  then show ?thesis
  proof cases
    case none
    then show ?thesis by (simp add: handle_def)
  next
    case other
    then show ?thesis
      by (cases body_url) (auto simp: handle_def split: json.splits)
  next
    case unparsed
    then show ?thesis by (simp add: handle_def)
  next
    case foreign
    then show ?thesis by (simp add: handle_def isValidAmazonUrl_def)
  qed
qed

text \<open>
  Claim C8, as amended.  When the body of the request denotes a value other than
  \<^verbatim>\<open>null\<close> and its \<^verbatim>\<open>url\<close> is missing, is not a string, does not parse as a
  URL, or has a host name that contains neither "amazon" nor "amzn", the handler answers
  with status 400, leaves the cache as it is and causes no event.  When the body denotes
  \<^verbatim>\<open>null\<close> or is not a JSON document, the handler answers with status 500 and
  "Failed to process request", and again leaves the cache as it is and causes no event.
\<close>

theorem POST_invalid_input:
  "(b \<noteq> JNull
    \<and> (get_prop b ''url'' = None \<or> (\<forall>s. get_prop b ''url'' \<noteq> Some (JStr s))
       \<or> (\<exists>s. get_prop b ''url'' = Some (JStr s) \<and> url_hostname E s = None)
       \<or> (\<exists>s h. get_prop b ''url'' = Some (JStr s) \<and> url_hostname E s = Some h
              \<and> \<not> str_includes (toLowerCase h) ''amazon''
              \<and> \<not> str_includes (toLowerCase h) ''amzn''))
    \<longrightarrow> (\<exists>msg. POST E c (Inr b) = (Response 400 (ErrorBody msg None), c, [])))
   \<and> (\<exists>msg. POST E c (Inr JNull)
          = (Response 500 (ErrorBody ''Failed to process request'' (Some msg)), c, []))
   \<and> POST E c (Inl message)
       = (Response 500 (ErrorBody ''Failed to process request'' (Some message)), c, [])"
proof (intro conjI impI)
  assume a: "b \<noteq> JNull
    \<and> (get_prop b ''url'' = None \<or> (\<forall>s. get_prop b ''url'' \<noteq> Some (JStr s))
       \<or> (\<exists>s. get_prop b ''url'' = Some (JStr s) \<and> url_hostname E s = None)
       \<or> (\<exists>s h. get_prop b ''url'' = Some (JStr s) \<and> url_hostname E s = Some h
              \<and> \<not> str_includes (toLowerCase h) ''amazon''
              \<and> \<not> str_includes (toLowerCase h) ''amzn''))"
  then have "\<exists>msg. handle E c (get_prop b ''url'') = (Response 400 (ErrorBody msg None), c, [])"
    by (intro handle_invalid_input) blast
  with a show "\<exists>msg. POST E c (Inr b) = (Response 400 (ErrorBody msg None), c, [])"
    by (simp add: POST_decoded)
next
  show "\<exists>msg. POST E c (Inr JNull)
          = (Response 500 (ErrorBody ''Failed to process request'' (Some msg)), c, [])"
    by (simp add: POST_def failed_to_process_def)
next
  show "POST E c (Inl message)
       = (Response 500 (ErrorBody ''Failed to process request'' (Some message)), c, [])"
    by (simp add: POST_def failed_to_process_def)
qed

theorem POST_invalid_input_witness:
  "JObj [(''url'', JStr ''example.com/product'')] \<noteq> JNull
   \<and> get_prop (JObj [(''url'', JStr ''example.com/product'')]) ''url''
       = Some (JStr ''example.com/product'')
   \<and> url_hostname (sample_env worker_ok 0) ''example.com/product'' = None
   \<and> (\<exists>msg. POST (sample_env worker_ok 0) Map.empty
            (Inr (JObj [(''url'', JStr ''example.com/product'')]))
          = (Response 400 (ErrorBody msg None), Map.empty, []))"
proof -
  let ?b = "JObj [(''url'', JStr ''example.com/product'')]"
  have g: "get_prop ?b ''url'' = Some (JStr ''example.com/product'')"
    by (simp add: get_prop_def)
  have h: "url_hostname (sample_env worker_ok 0) ''example.com/product'' = None"
    by (simp add: sample_env_def sample_hostname_def)
  from POST_invalid_input [of ?b "sample_env worker_ok 0" Map.empty] g h
  have "\<exists>msg. POST (sample_env worker_ok 0) Map.empty (Inr ?b)
          = (Response 400 (ErrorBody msg None), Map.empty, [])"
    by blast
  then show ?thesis using g h by simp
qed

text \<open>
  As stated, for every input whose \<^verbatim>\<open>url\<close> is missing, the claim fails: a body
  that is \<^verbatim>\<open>null\<close> has no \<^verbatim>\<open>url\<close>, and the reply is the 500 of the outer
  \<^verbatim>\<open>catch\<close>.
\<close>

theorem POST_null_body_counterexample:
  "get_prop JNull ''url'' = None
   \<and> POST (sample_env worker_ok 0) Map.empty (Inr JNull)
       = (Response 500 (ErrorBody ''Failed to process request''
            (Some ''Cannot destructure property 'url' of '(intermediate value)' as it is null.'')),
          Map.empty, [])"
  by (simp add: get_prop_def POST_def failed_to_process_def)

section \<open>Derived fields\<close>

text \<open>
  Claim C9, as amended.  For every product snapshot whose fields have the types the
  \<^verbatim>\<open>ProductData\<close> interface declares and every review sequence whose star fields
  are strings (the empty sequence included), the computation of the derived fields does
  not throw: it returns a result whose sentiment is the one \<open>sentimentAnalysis\<close>
  computes (the default 60/25/15 when there are no reviews and the rating is zero or
  \<open>NaN\<close>), and whose key insights, pros and cons are each non-empty.
\<close>

theorem analyse_never_fails_on_text:
  assumes "conforms p" and "stars_ok reviews"
  shows "\<exists>r. analyse E url p reviews = Inr r
           \<and> r_keyInsights r \<noteq> [] \<and> r_pros r \<noteq> [] \<and> r_cons r \<noteq> []
           \<and> sentimentAnalysis E p reviews = Inr (r_sentiment r)
           \<and> (reviews = [] \<and> \<not> truthy_num (rating p) \<longrightarrow> r_sentiment r = default_sentiment)"
proof -
  from analyse_total [OF assms] obtain r where r: "analyse E url p reviews = Inr r" by blast
  note res = analyse_result [OF r]
  have "r_sentiment r = default_sentiment" if "reviews = []" "\<not> truthy_num (rating p)"
    using res that sentimentAnalysis_default [of p E] by simp
  with r res show ?thesis by blast
qed

lemma sample_snapshot_conforms: "conforms sample_snapshot"
  by (simp add: conforms_def sample_snapshot_def)

lemma sample_snapshot_usable: "usable sample_snapshot"
  by (simp add: usable_def sample_snapshot_def)

theorem analyse_never_fails_on_text_witness:
  "conforms sample_snapshot \<and> stars_ok []
   \<and> (\<exists>r. analyse (sample_env worker_ok 1000) sample_url sample_snapshot [] = Inr r
          \<and> r_keyInsights r \<noteq> [] \<and> r_pros r \<noteq> [] \<and> r_cons r \<noteq> []
          \<and> sentimentAnalysis (sample_env worker_ok 1000) sample_snapshot [] = Inr (r_sentiment r))"
proof -
  have s: "stars_ok []" by (simp add: stars_ok_def)
  from analyse_never_fails_on_text [OF sample_snapshot_conforms s,
      of "sample_env worker_ok 1000" sample_url]
  show ?thesis using sample_snapshot_conforms s by blast
qed

text \<open>
  As stated, for every review sequence, the claim fails: the review fetch copies the
  star field of the payload unchecked, and a star rating given as a number makes
  \<^verbatim>\<open>review.Stars?.replace\<close> throw.
\<close>

theorem analyse_numeric_stars_counterexample:
  "conforms sample_snapshot \<and> usable sample_snapshot
   \<and> analyse (sample_env worker_ok 1000) sample_url sample_snapshot
        [\<lparr> Description = JStr ''Boils fast'', Stars = JNum 5 \<rparr>]
      = Inl ''review.Stars?.replace is not a function''"
proof -
  have "analyse (sample_env worker_ok 1000) sample_url sample_snapshot
        [\<lparr> Description = JStr ''Boils fast'', Stars = JNum 5 \<rparr>]
      = Inl ''review.Stars?.replace is not a function''"
    by code_simp
  then show ?thesis using sample_snapshot_conforms sample_snapshot_usable by simp
qed

section \<open>Failure of the secondary fetch\<close>

lemma analyzeReviews_not_array:
  assumes "fst (runPythonScript E ''scripts/script2.py'' u MAX_RETRIES) = Inr data"
      and "\<forall>rs. data \<noteq> JArr rs"
  shows "fst (analyzeReviews E u) = Inr []"
  using assms
  by (cases "runPythonScript E ''scripts/script2.py'' u MAX_RETRIES"; cases data)
     (auto simp: analyzeReviews_def)

text \<open>
  Claim C3, as amended.  For a request that misses the cache and whose product fetch is
  usable, with a snapshot whose fields have the types the \<^verbatim>\<open>ProductData\<close>
  interface declares, a failure of the review fetch, be it a rejection or a payload that
  is not an array, does not fail the request: the reply has status 200 and carries the
  analysis of the snapshot with no reviews, its review sequence is empty, and the result
  is stored in the cache.
\<close>

theorem secondary_failure_tolerated:
  assumes "valid_miss E c url"
      and "fst (scrapeAmazonProduct E url) = Inr v" and "usable v" and "conforms v"
      and "(\<exists>reason. fst (analyzeReviews E (reviewsUrl_of url)) = Inl reason)
           \<or> (\<exists>data. fst (runPythonScript E ''scripts/script2.py'' (reviewsUrl_of url) MAX_RETRIES) = Inr data
                  \<and> (\<forall>rs. data \<noteq> JArr rs))"
  shows "\<exists>r. fst (handle E c (Some (JStr url))) = Response 200 (ResultBody r)
           \<and> analyse E url v [] = Inr r
           \<and> r_title r = title v \<and> r_reviews r = [] \<and> r_reviewCount r = 0
           \<and> fst (snd (handle E c (Some (JStr url)))) = productCache_set (t_set E) c url r"
proof -
  have rs: "(case fst (analyzeReviews E (reviewsUrl_of url)) of Inr rs \<Rightarrow> rs | Inl reason \<Rightarrow> []) = []"
    using assms(5) analyzeReviews_not_array [of E "reviewsUrl_of url"] by auto
  have "stars_ok []" by (simp add: stars_ok_def)
  from analyse_total [OF assms(4) this] obtain r where r: "analyse E url v [] = Inr r" by blast
  from analyse_result [OF r] have "r_reviews r = []" "r_reviewCount r = 0" by simp_all
  moreover have "r_title r = title v"
    using r by (auto simp: analyse_def split: sum.splits)
  moreover have "handle E c (Some (JStr url)) =
      (Response 200 (ResultBody r), productCache_set (t_set E) c url r,
       snd (scrapeAmazonProduct E url) @ snd (analyzeReviews E (reviewsUrl_of url)))"
    by (simp add: POST_valid_miss [OF assms(1)] fetch_usable [OF assms(2,3)] rs r)
  ultimately show ?thesis using r by simp
qed

lemma sample_valid_miss: "valid_miss (sample_env W t) Map.empty sample_url"
  by (simp add: valid_miss_def sample_url_nonempty sample_url_valid productCache_get_def)

lemma scrape_reviews_down:
  "fst (scrapeAmazonProduct (sample_env worker_reviews_down 1000) sample_url) = Inr sample_snapshot"
  by code_simp

lemma reviews_down_rejected:
  "fst (analyzeReviews (sample_env worker_reviews_down 1000) (reviewsUrl_of sample_url))
     = Inl (ProcessFailed (Some 1) [] ''Traceback (most recent call last)'')"
  by code_simp

theorem secondary_failure_tolerated_witness:
  "valid_miss (sample_env worker_reviews_down 1000) Map.empty sample_url
   \<and> fst (scrapeAmazonProduct (sample_env worker_reviews_down 1000) sample_url) = Inr sample_snapshot
   \<and> usable sample_snapshot \<and> conforms sample_snapshot
   \<and> fst (analyzeReviews (sample_env worker_reviews_down 1000) (reviewsUrl_of sample_url))
       = Inl (ProcessFailed (Some 1) [] ''Traceback (most recent call last)'')
   \<and> (\<exists>r. fst (handle (sample_env worker_reviews_down 1000) Map.empty (Some (JStr sample_url)))
            = Response 200 (ResultBody r)
          \<and> r_reviews r = [] \<and> r_reviewCount r = 0)"
proof -
  let ?E = "sample_env worker_reviews_down 1000"
  have sec: "(\<exists>reason. fst (analyzeReviews ?E (reviewsUrl_of sample_url)) = Inl reason)
      \<or> (\<exists>data. fst (runPythonScript ?E ''scripts/script2.py'' (reviewsUrl_of sample_url) MAX_RETRIES) = Inr data
             \<and> (\<forall>rs. data \<noteq> JArr rs))"
    using reviews_down_rejected by blast
  from secondary_failure_tolerated [OF sample_valid_miss scrape_reviews_down
      sample_snapshot_usable sample_snapshot_conforms sec]
  show ?thesis
    using sample_valid_miss scrape_reviews_down sample_snapshot_usable sample_snapshot_conforms
      reviews_down_rejected by blast
qed

text \<open>The other kind of failure: the review worker prints a document that is not an array.\<close>

lemma POST_reviews_not_array:
  "(case fst (handle (sample_env worker_reviews_scalar 1000) Map.empty (Some (JStr sample_url))) of
      Response status (ResultBody r) \<Rightarrow> status = 200 \<and> r_reviews r = [] \<and> r_reviewCount r = 0
    | Response status (ErrorBody m d) \<Rightarrow> False)"
  by code_simp

text \<open>
  As stated, for every usable product fetch, the claim fails: a snapshot whose title
  passes the guard of line 62 and whose price is a number makes
  \<^verbatim>\<open>priceString.replace\<close> throw, and with the review fetch rejected the reply is
  the 500 of the inner \<^verbatim>\<open>catch\<close>.
\<close>

theorem secondary_failure_numeric_price_counterexample:
  "valid_miss (sample_env worker_numeric_price 1000) Map.empty sample_url
   \<and> fst (scrapeAmazonProduct (sample_env worker_numeric_price 1000) sample_url)
       = Inr (sample_snapshot \<lparr> price := JNum (2499 / 100), rating := Fin 0, reviewCount := Fin 0,
                availability := JStr ''N/A'', features := [] \<rparr>)
   \<and> usable (sample_snapshot \<lparr> price := JNum (2499 / 100), rating := Fin 0, reviewCount := Fin 0,
                availability := JStr ''N/A'', features := [] \<rparr>)
   \<and> fst (analyzeReviews (sample_env worker_numeric_price 1000) (reviewsUrl_of sample_url))
       = Inl (ProcessFailed (Some 1) [] ''Traceback (most recent call last)'')
   \<and> fst (handle (sample_env worker_numeric_price 1000) Map.empty (Some (JStr sample_url)))
       = Response 500 (ErrorBody ''Analysis failed'' (Some ''priceString.replace is not a function''))"
proof -
  have 1: "fst (scrapeAmazonProduct (sample_env worker_numeric_price 1000) sample_url)
       = Inr (sample_snapshot \<lparr> price := JNum (2499 / 100), rating := Fin 0, reviewCount := Fin 0,
                availability := JStr ''N/A'', features := [] \<rparr>)"
    by code_simp
  have 2: "usable (sample_snapshot \<lparr> price := JNum (2499 / 100), rating := Fin 0,
                reviewCount := Fin 0, availability := JStr ''N/A'', features := [] \<rparr>)"
    by (simp add: usable_def sample_snapshot_def)
  have 3: "fst (analyzeReviews (sample_env worker_numeric_price 1000) (reviewsUrl_of sample_url))
       = Inl (ProcessFailed (Some 1) [] ''Traceback (most recent call last)'')"
    by code_simp
  have 4: "fst (handle (sample_env worker_numeric_price 1000) Map.empty (Some (JStr sample_url)))
       = Response 500 (ErrorBody ''Analysis failed'' (Some ''priceString.replace is not a function''))"
    by code_simp
  show ?thesis using sample_valid_miss 1 2 3 4 by simp
qed

section \<open>Failure of the request\<close>

lemma fetch_failed_cache:
  "failed (fst (fetch_and_analyse E c url)) \<Longrightarrow> fst (snd (fetch_and_analyse E c url)) = c"
  by (cases "scrapeAmazonProduct E url"; cases "analyzeReviews E (reviewsUrl_of url)")
     (auto simp: fetch_and_analyse_def Let_def split: sum.splits if_splits)

lemma fetch_primary_unusable:
  "primary_unusable E url \<Longrightarrow>
   fst (fetch_and_analyse E c url) = unable_response \<and> fst (snd (fetch_and_analyse E c url)) = c"
  using fetch_rejected [of E url _ c] fetch_unusable [of E url _ c]
  by (cases "fst (scrapeAmazonProduct E url)") (auto simp: primary_unusable_def)

lemma fetch_typed_success:
  assumes "\<not> primary_unusable E url" and "primary_conforms E url" and "reviews_stars_ok E url"
  shows "\<not> failed (fst (fetch_and_analyse E c url))"
proof -
  from assms(1) obtain v where v: "fst (scrapeAmazonProduct E url) = Inr v" "usable v"
    by (cases "fst (scrapeAmazonProduct E url)") (auto simp: primary_unusable_def)
  from assms(2) v(1) have cf: "conforms v" by (simp add: primary_conforms_def)
  let ?rs = "case fst (analyzeReviews E (reviewsUrl_of url)) of Inr rs \<Rightarrow> rs | Inl reason \<Rightarrow> []"
  have "stars_ok ?rs"
    using assms(3)
    by (cases "fst (analyzeReviews E (reviewsUrl_of url))")
       (simp_all add: reviews_stars_ok_def stars_ok_def)
  from analyse_total [OF cf this] obtain r where "analyse E url v ?rs = Inr r" by blast
  then show ?thesis by (simp add: fetch_usable [OF v])
qed

text \<open>
  Claim C2, as amended.  For every request that misses the cache: if the product fetch
  is unusable (rejected, or the title of its snapshot is falsy or "N/A"), the request
  fails with the reply of lines 64-67 and the cache is unchanged; if the snapshot has the
  declared types and the star fields of the reviews are strings, the request fails
  exactly when the product fetch is unusable; and whenever the request fails, the cache
  is unchanged.
\<close>

theorem POST_fails_iff_primary_unusable:
  assumes "valid_miss E c url"
  shows "(primary_unusable E url \<longrightarrow>
            fst (handle E c (Some (JStr url))) = unable_response
            \<and> fst (snd (handle E c (Some (JStr url)))) = c)
       \<and> (primary_conforms E url \<and> reviews_stars_ok E url \<longrightarrow>
            (failed (fst (handle E c (Some (JStr url)))) \<longleftrightarrow> primary_unusable E url))
       \<and> (failed (fst (handle E c (Some (JStr url)))) \<longrightarrow>
            fst (snd (handle E c (Some (JStr url)))) = c)"
  using fetch_primary_unusable [of E url c] fetch_typed_success [of E url c]
    fetch_failed_cache [of E c url] failed_unable_response
  by (auto simp: POST_valid_miss [OF assms])


theorem POST_fails_iff_primary_unusable_witness:
  "valid_miss (sample_env worker_untitled 1000) Map.empty sample_url
   \<and> primary_unusable (sample_env worker_untitled 1000) sample_url
   \<and> primary_conforms (sample_env worker_untitled 1000) sample_url
   \<and> reviews_stars_ok (sample_env worker_untitled 1000) sample_url
   \<and> failed (fst (handle (sample_env worker_untitled 1000) Map.empty (Some (JStr sample_url))))
   \<and> fst (handle (sample_env worker_untitled 1000) Map.empty (Some (JStr sample_url))) = unable_response
   \<and> fst (snd (handle (sample_env worker_untitled 1000) Map.empty (Some (JStr sample_url)))) = Map.empty"
proof -
  let ?E = "sample_env worker_untitled 1000"
  have u: "primary_unusable ?E sample_url" by code_simp
  have cf: "primary_conforms ?E sample_url" by code_simp
  have st: "reviews_stars_ok ?E sample_url" by code_simp
  from POST_fails_iff_primary_unusable [OF sample_valid_miss, of worker_untitled 1000] u cf st
  show ?thesis using sample_valid_miss by blast
qed

text \<open>
  As stated, the equivalence fails: with a usable product fetch and a review whose star
  rating is a number, the request fails with status 500.
\<close>

theorem POST_fails_with_usable_primary_counterexample:
  "valid_miss (sample_env worker_numeric_stars 1000) Map.empty sample_url
   \<and> fst (scrapeAmazonProduct (sample_env worker_numeric_stars 1000) sample_url) = Inr sample_snapshot
   \<and> usable sample_snapshot
   \<and> fst (handle (sample_env worker_numeric_stars 1000) Map.empty (Some (JStr sample_url)))
       = Response 500 (ErrorBody ''Analysis failed'' (Some ''review.Stars?.replace is not a function''))"
proof -
  have 1: "fst (scrapeAmazonProduct (sample_env worker_numeric_stars 1000) sample_url) = Inr sample_snapshot"
    by code_simp
  have 2: "fst (handle (sample_env worker_numeric_stars 1000) Map.empty (Some (JStr sample_url)))
       = Response 500 (ErrorBody ''Analysis failed'' (Some ''review.Stars?.replace is not a function''))"
    by code_simp
  show ?thesis using sample_valid_miss 1 2 sample_snapshot_usable by simp
qed

section \<open>Exhausted retries on a rate limit\<close>

lemma scrape_rejected_of_run:
  "fst (runPythonScript E ''scripts/product.py'' url MAX_RETRIES) = Inl e \<Longrightarrow>
   fst (scrapeAmazonProduct E url) = Inl e"
  by (cases "runPythonScript E ''scripts/product.py'' url MAX_RETRIES")
     (simp add: scrapeAmazonProduct_def)

lemma run_all_rate_limited:
  assumes "\<forall>i. i \<le> m \<longrightarrow> attempt_outcome E (worker E s a i) = Inl RATE_LIMITED"
  shows "fst (runPythonScript E s a m) = Inl RATE_LIMITED"
proof -
  from retry_from_trace [of 0 m E s a None] obtain j where
    "j \<le> m" "fst (retry_from E s a m 0 None) = attempt_outcome E (worker E s a j)" by auto
  with assms show ?thesis by (simp add: runPythonScript_def)
qed

lemma catch_response_RATE_LIMITED:
  "catch_response ''RATE_LIMITED'' = Response 500 (ErrorBody ''Analysis failed'' (Some ''RATE_LIMITED''))"
  by (simp add: catch_response_def)

text \<open>
  Claim C1, on the code.  When every attempt of the product fetch is rate limited, the
  fetch is rejected with \<open>RATE_LIMITED\<close>, and the handler answers with status 400 and
  the message of lines 64-67, the reply it gives to every other failure of the product
  fetch; the cache is unchanged.  The reply with status 429 of lines 313-318 is not
  given: \<^verbatim>\<open>Promise.allSettled\<close> does not throw, and the message of the rejection
  contains neither "rate limit" nor "429" (\<open>catch_response_RATE_LIMITED\<close>).
\<close>

theorem POST_rate_limit_exhausted:
  assumes "valid_miss E c url"
      and "\<forall>i. i \<le> MAX_RETRIES \<longrightarrow>
             attempt_outcome E (worker E ''scripts/product.py'' url i) = Inl RATE_LIMITED"
  shows "fst (scrapeAmazonProduct E url) = Inl RATE_LIMITED
       \<and> fst (handle E c (Some (JStr url)))
           = Response 400 (ErrorBody ''Unable to extract product information''
               (Some ''The product page may be protected or temporarily unavailable. Please try again in a few minutes.''))
       \<and> fst (snd (handle E c (Some (JStr url)))) = c"
proof -
  have r: "fst (scrapeAmazonProduct E url) = Inl RATE_LIMITED"
    using run_all_rate_limited [OF assms(2)] by (rule scrape_rejected_of_run)
  from fetch_rejected [OF r, of c] show ?thesis
    by (simp add: r POST_valid_miss [OF assms(1)] unable_response_def)
qed

theorem POST_rate_limit_exhausted_witness:
  "valid_miss (sample_env worker_rate_limited 1000) Map.empty sample_url
   \<and> attempt_outcome (sample_env worker_rate_limited 1000)
        (worker (sample_env worker_rate_limited 1000) ''scripts/product.py'' sample_url 0) = Inl RATE_LIMITED
   \<and> attempt_outcome (sample_env worker_rate_limited 1000)
        (worker (sample_env worker_rate_limited 1000) ''scripts/product.py'' sample_url 1) = Inl RATE_LIMITED
   \<and> attempt_outcome (sample_env worker_rate_limited 1000)
        (worker (sample_env worker_rate_limited 1000) ''scripts/product.py'' sample_url 2) = Inl RATE_LIMITED
   \<and> fst (handle (sample_env worker_rate_limited 1000) Map.empty (Some (JStr sample_url)))
       = Response 400 (ErrorBody ''Unable to extract product information''
           (Some ''The product page may be protected or temporarily unavailable. Please try again in a few minutes.''))
   \<and> fst (handle (sample_env worker_crashing 1000) Map.empty (Some (JStr sample_url)))
       = fst (handle (sample_env worker_rate_limited 1000) Map.empty (Some (JStr sample_url)))
   \<and> fst (snd (handle (sample_env worker_rate_limited 1000) Map.empty (Some (JStr sample_url)))) = Map.empty"
proof -
  let ?E = "sample_env worker_rate_limited 1000"
  have all: "\<forall>i. i \<le> MAX_RETRIES \<longrightarrow>
      attempt_outcome ?E (worker ?E ''scripts/product.py'' sample_url i) = Inl RATE_LIMITED"
    by (simp add: worker_rate_limited_outcome)
  have crash: "fst (handle (sample_env worker_crashing 1000) Map.empty (Some (JStr sample_url)))
      = Response 400 (ErrorBody ''Unable to extract product information''
           (Some ''The product page may be protected or temporarily unavailable. Please try again in a few minutes.''))"
    by code_simp
  from POST_rate_limit_exhausted [OF sample_valid_miss all]
  show ?thesis using sample_valid_miss crash by (simp add: worker_rate_limited_outcome)
qed

end
